theory Spec2Isabelle
  imports Main "HOL-Library.AList"
begin

section \<open>The helm-chart build script\<close>

text \<open>
  A shallow embedding of \<^verbatim>\<open>helm-chart/build.py\<close>. The script drives external programs
  (git, docker, helm) through \<^verbatim>\<open>subprocess\<close> and rewrites two YAML documents. The external
  programs are a parameter of the model: a function from the command that is run to its
  exit status and output. Everything the script does around them (the argument lists, the
  string formatting, the order of the calls, the exceptions that abort it, the documents
  it writes) is a definition below. \<^verbatim>\<open>update_mybinder_deployment\<close> is left out: its only call
  is commented out.
\<close>

subsection \<open>Exceptions\<close>

datatype error =
    CalledProcessError "string list" int
  | UnicodeDecodeError
  | FileNotFoundError string
  | KeyError string
  | TypeError
  | AttributeError
  | IndexError

subsection \<open>Strings\<close>

text \<open>
  \<^verbatim>\<open>str.isspace\<close> on the characters of the model (code points below 256): the ASCII
  white space \<^verbatim>\<open>\t \n \v \f \r\<close> and the space, the separators \<^verbatim>\<open>\x1c .. \x1f\<close>, and the
  Latin-1 characters \<^verbatim>\<open>\x85\<close> and \<^verbatim>\<open>\xa0\<close>.
\<close>

definition isspace :: "char \<Rightarrow> bool" where
  "isspace c =
     (let n = (of_char c :: nat)
      in (9 \<le> n \<and> n \<le> 13) \<or> (28 \<le> n \<and> n \<le> 32) \<or> n = 133 \<or> n = 160)"

text \<open>\<^verbatim>\<open>s.strip()\<close>: leading and trailing white space removed.\<close>

definition strip :: "string \<Rightarrow> string" where
  "strip s = rev (dropWhile isspace (rev (dropWhile isspace s)))"

text \<open>
  \<^verbatim>\<open>s.split(sep)\<close> for a separator of one character: the pieces between the separators,
  empty pieces kept; the result always has a first piece.
\<close>

fun split :: "char \<Rightarrow> string \<Rightarrow> string list" where
  "split sep [] = [[]]"
| "split sep (c # cs) =
     (if c = sep then [] # split sep cs
      else (case split sep cs of
              [] \<Rightarrow> [[c]]
            | w # ws \<Rightarrow> (c # w) # ws))"

text \<open>\<^verbatim>\<open>xs[0]\<close>, which raises on the empty list.\<close>

definition index0 :: "'a list \<Rightarrow> error + 'a" where
  "index0 xs = (case xs of [] \<Rightarrow> Inl IndexError | x # _ \<Rightarrow> Inr x)"

subsection \<open>Paths\<close>

text \<open>
  \<^verbatim>\<open>os.path.join\<close> and \<^verbatim>\<open>os.path.dirname\<close> of \<^verbatim>\<open>posixpath\<close>. A component that starts with
  the separator replaces what was joined so far; otherwise one separator is put between
  the components unless the path so far is empty or already ends with one.
\<close>

fun join :: "string \<Rightarrow> string list \<Rightarrow> string" where
  "join path [] = path"
| "join path (b # p) =
     join (if b \<noteq> [] \<and> hd b = CHR ''/'' then b
           else if path = [] \<or> last path = CHR ''/'' then path @ b
           else path @ ''/'' @ b) p"

definition dirname :: "string \<Rightarrow> string" where
  "dirname p =
     (let head = rev (dropWhile (\<lambda>c. c \<noteq> CHR ''/'') (rev p))
      in if head \<noteq> [] \<and> \<not> list_all (\<lambda>c. c = CHR ''/'') head
         then rev (dropWhile (\<lambda>c. c = CHR ''/'') (rev head))
         else head)"

text \<open>
  The module constants. \<^verbatim>\<open>BASEPATH\<close> is the absolute directory of the script file; it is
  the parameter \<open>bp\<close> of everything below.
\<close>

definition CHARTPATH :: "string \<Rightarrow> string" where
  "CHARTPATH bp = join bp [''binderhub'']"

definition ROOTPATH :: "string \<Rightarrow> string" where
  "ROOTPATH bp = dirname bp"

definition NAME :: string where
  "NAME = ''binderhub''"

definition PYPKGPATH :: "string \<Rightarrow> string" where
  "PYPKGPATH bp = join (ROOTPATH bp) [NAME]"

definition SETUP_PY :: "string \<Rightarrow> string" where
  "SETUP_PY bp = join (ROOTPATH bp) [''setup.py'']"

definition IMAGE_PATH :: "string \<Rightarrow> string" where
  "IMAGE_PATH bp = join bp [''images'', NAME]"

definition IMAGE_FILES :: "string \<Rightarrow> string list" where
  "IMAGE_FILES bp = [SETUP_PY bp, PYPKGPATH bp, IMAGE_PATH bp]"

definition CHART_FILES :: "string \<Rightarrow> string list" where
  "CHART_FILES bp = IMAGE_FILES bp @ [CHARTPATH bp]"

definition HELM_CHART_DEPLOY_KEY_NAME :: string where
  "HELM_CHART_DEPLOY_KEY_NAME = ''travis''"

subsection \<open>YAML documents\<close>

text \<open>
  A loaded document. A mapping keeps the order of its keys, as the round-trip loader
  does, so it is an association list. Floats and dates are left out: like \<open>YNull\<close>,
  \<open>YBool\<close> and \<open>YInt\<close> they are neither mappings nor strings, which is all the script
  asks of a value.
\<close>

datatype yaml =
    YNull
  | YBool bool
  | YInt int
  | YStr string
  | YSeq "yaml list"
  | YMap "(string \<times> yaml) list"

text \<open>\<^verbatim>\<open>d[k]\<close> with a string key: only a mapping can be indexed by it.\<close>

definition getitem :: "yaml \<Rightarrow> string \<Rightarrow> error + yaml" where
  "getitem d k =
     (case d of
        YMap kvs \<Rightarrow> (case map_of kvs k of None \<Rightarrow> Inl (KeyError k) | Some v \<Rightarrow> Inr v)
      | _ \<Rightarrow> Inl TypeError)"

text \<open>
  \<^verbatim>\<open>d[k] = v\<close>: an existing key keeps its place, a new key goes last.
\<close>

definition setitem :: "yaml \<Rightarrow> string \<Rightarrow> yaml \<Rightarrow> error + yaml" where
  "setitem d k v =
     (case d of
        YMap kvs \<Rightarrow> Inr (YMap (AList.update k v kvs))
      | _ \<Rightarrow> Inl TypeError)"

text \<open>
  \<^verbatim>\<open>d[k1][k2] = v\<close>: the inner mapping is looked up and changed in place, so the outer
  document holds the changed inner mapping afterwards.
\<close>

definition setitem2 :: "yaml \<Rightarrow> string \<Rightarrow> string \<Rightarrow> yaml \<Rightarrow> error + yaml" where
  "setitem2 d k1 k2 v =
     (case getitem d k1 of
        Inl e \<Rightarrow> Inl e
      | Inr inner \<Rightarrow>
          (case setitem inner k2 v of
             Inl e \<Rightarrow> Inl e
           | Inr inner' \<Rightarrow> setitem d k1 inner'))"

text \<open>\<^verbatim>\<open>v.split('-')\<close>: only a string has the method.\<close>

definition split_version :: "yaml \<Rightarrow> error + string list" where
  "split_version v = (case v of YStr s \<Rightarrow> Inr (split CHR ''-'' s) | _ \<Rightarrow> Inl AttributeError)"

subsection \<open>The outside world\<close>

text \<open>
  A command is the argument list given to \<^verbatim>\<open>subprocess\<close>, with the working directory and
  the \<^verbatim>\<open>GIT_SSH_COMMAND\<close> override of the environment where the script passes them.
\<close>

record command =
  argv :: "string list"
  cwd :: "string option"
  git_ssh_command :: "string option"

definition cmd :: "string list \<Rightarrow> command" where
  "cmd args = \<lparr>argv = args, cwd = None, git_ssh_command = None\<rparr>"

text \<open>
  What a finished process gives back: its exit status and, for \<^verbatim>\<open>check_output\<close>, its
  standard output decoded as UTF-8 (\<open>None\<close> when the bytes do not decode). The tools are
  a function of the command alone: during a run the same command gets the same answer.
\<close>

record proc_result =
  returncode :: int
  decoded :: "string option"

type_synonym tools = "command \<Rightarrow> proc_result"

text \<open>
  What the script leaves behind: the processes it started and the lines it printed, in
  order, and the documents on disk.
\<close>

datatype event = Exec command | Print string

record state =
  files :: "string \<rightharpoonup> yaml"
  trace :: "event list"

definition emit :: "event \<Rightarrow> state \<Rightarrow> state" where
  "emit ev s = s\<lparr>trace := trace s @ [ev]\<rparr>"

text \<open>
  \<^verbatim>\<open>subprocess.check_output\<close> and \<^verbatim>\<open>subprocess.check_call\<close>: the process is started, and a
  non-zero exit status raises.
\<close>

definition check_output :: "tools \<Rightarrow> command \<Rightarrow> state \<Rightarrow> (error + proc_result) \<times> state" where
  "check_output w c s =
     (let r = w c; s' = emit (Exec c) s
      in if returncode r \<noteq> 0 then (Inl (CalledProcessError (argv c) (returncode r)), s')
         else (Inr r, s'))"

definition check_call :: "tools \<Rightarrow> command \<Rightarrow> state \<Rightarrow> (error + unit) \<times> state" where
  "check_call w c s =
     (let r = w c; s' = emit (Exec c) s
      in if returncode r \<noteq> 0 then (Inl (CalledProcessError (argv c) (returncode r)), s')
         else (Inr (), s'))"

definition decode :: "proc_result \<Rightarrow> error + string" where
  "decode r = (case decoded r of None \<Rightarrow> Inl UnicodeDecodeError | Some t \<Rightarrow> Inr t)"

text \<open>
  \<^verbatim>\<open>yaml.load(open(path))\<close> and \<^verbatim>\<open>yaml.dump(doc, open(path, 'w'))\<close>. For a file that the script
  has not written, \<open>files\<close> gives the document it loads as; after \<^verbatim>\<open>yaml.dump\<close> it gives the
  document that was handed to \<^verbatim>\<open>yaml.dump\<close>. The text that \<^verbatim>\<open>yaml.dump\<close> writes is not
  modelled, and neither is what that text loads as: the dumper is set up with
  \<^verbatim>\<open>yaml.indent(offset=2)\<close> and a sequence indent left at 2, so that in a block sequence of
  mappings the keys after the first are not written in the column of the first, and the
  text is read back as another document or not at all. So \<open>load\<close> is meant for files that the
  script has not written; a run of \<open>main\<close> loads each of the two documents before it
  writes it and never after, and no property below loads a file that was dumped.
\<close>

definition load :: "string \<Rightarrow> state \<Rightarrow> error + yaml" where
  "load path s = (case files s path of None \<Rightarrow> Inl (FileNotFoundError path) | Some d \<Rightarrow> Inr d)"

definition dump :: "string \<Rightarrow> yaml \<Rightarrow> state \<Rightarrow> state" where
  "dump path d s = s\<lparr>files := (files s)(path \<mapsto> d)\<rparr>"

subsection \<open>Version stamper and change detector\<close>

text \<open>The \<^verbatim>\<open>paths\<close> argument is one string or a list of strings.\<close>

datatype paths = PathStr string | PathList "string list"

definition path_list :: "paths \<Rightarrow> string list" where
  "path_list ps = (case ps of PathStr p \<Rightarrow> [p] | PathList l \<Rightarrow> l)"

definition git_log_cmd :: "string list \<Rightarrow> command" where
  "git_log_cmd ps = cmd ([''git'', ''log'', ''-n'', ''1'', ''--pretty=format:%h'', ''--''] @ ps)"

definition last_git_modified :: "tools \<Rightarrow> paths \<Rightarrow> state \<Rightarrow> (error + string) \<times> state" where
  "last_git_modified w ps s =
     (case check_output w (git_log_cmd (path_list ps)) s of
        (Inl e, s') \<Rightarrow> (Inl e, s')
      | (Inr r, s') \<Rightarrow> (decode r, s'))"

definition git_diff_cmd :: "string list \<Rightarrow> string \<Rightarrow> command" where
  "git_diff_cmd ps commit_range =
     cmd ([''git'', ''diff'', ''--name-only'', commit_range, ''--''] @ ps)"

definition path_changed :: "tools \<Rightarrow> paths \<Rightarrow> string \<Rightarrow> state \<Rightarrow> (error + bool) \<times> state" where
  "path_changed w ps commit_range s =
     (case check_output w (git_diff_cmd (path_list ps) commit_range) s of
        (Inl e, s') \<Rightarrow> (Inl e, s')
      | (Inr r, s') \<Rightarrow>
          (case decode r of
             Inl e \<Rightarrow> (Inl e, s')
           | Inr t \<Rightarrow> (Inr (strip t \<noteq> []), s')))"

subsection \<open>Image builder\<close>

text \<open>\<^verbatim>\<open>'{}{}:{}'.format(prefix, image, tag)\<close> and the other formatted strings.\<close>

definition image_spec :: "string \<Rightarrow> string \<Rightarrow> string \<Rightarrow> string" where
  "image_spec prefix img tag = prefix @ img @ '':'' @ tag"

definition docker_build_cmd :: "string \<Rightarrow> string \<Rightarrow> string \<Rightarrow> command" where
  "docker_build_cmd spec tag image_path =
     cmd [''docker'', ''build'', ''-t'', spec,
          ''--build-arg'', ''BINDERHUB_VERSION='' @ tag, image_path]"

definition docker_push_cmd :: "string \<Rightarrow> command" where
  "docker_push_cmd spec = cmd [''docker'', ''push'', spec]"

definition skip_message :: "string \<Rightarrow> string \<Rightarrow> string" where
  "skip_message img commit_range =
     ''Skipping '' @ img @ '', not touched in '' @ commit_range"

text \<open>
  The part of the loop body after the change check: the tag, the build and the push.
\<close>

definition build_image ::
    "tools \<Rightarrow> string \<Rightarrow> string \<Rightarrow> string \<Rightarrow> bool \<Rightarrow> state \<Rightarrow> (error + unit) \<times> state" where
  "build_image w bp prefix img push s =
     (let image_path = join bp [''images'', img]
      in case last_git_modified w (PathList (IMAGE_FILES bp)) s of
           (Inl e, s1) \<Rightarrow> (Inl e, s1)
         | (Inr tag, s1) \<Rightarrow>
             (let spec = image_spec prefix img tag
              in case check_call w (docker_build_cmd spec tag image_path) s1 of
                   (Inl e, s2) \<Rightarrow> (Inl e, s2)
                 | (Inr u, s2) \<Rightarrow>
                     (if push then check_call w (docker_push_cmd spec) s2
                      else (Inr (), s2))))"

text \<open>
  The change check at the head of the loop body. \<^verbatim>\<open>if commit_range:\<close> holds for a string
  that is not empty (\<open>None\<close> is the default of the argument). The result says whether the
  body ends here with \<^verbatim>\<open>continue\<close>, after the message is printed.
\<close>

definition skip_unchanged ::
    "tools \<Rightarrow> string \<Rightarrow> string \<Rightarrow> string option \<Rightarrow> state \<Rightarrow> (error + bool) \<times> state" where
  "skip_unchanged w bp img commit_range s =
     (case commit_range of
        None \<Rightarrow> (Inr False, s)
      | Some r \<Rightarrow>
          (if r = [] then (Inr False, s)
           else
             (case path_changed w (PathList (IMAGE_FILES bp)) r s of
                (Inl e, s1) \<Rightarrow> (Inl e, s1)
              | (Inr changed, s1) \<Rightarrow>
                  (if \<not> changed then (Inr True, emit (Print (skip_message img r)) s1)
                   else (Inr False, s1)))))"

text \<open>
  The loop of \<^verbatim>\<open>build_images\<close>; \<^verbatim>\<open>continue\<close> goes on with the next element, an exception
  ends the loop.
\<close>

fun build_images ::
    "tools \<Rightarrow> string \<Rightarrow> string \<Rightarrow> string list \<Rightarrow> string option \<Rightarrow> bool \<Rightarrow> state
       \<Rightarrow> (error + unit) \<times> state" where
  "build_images w bp prefix [] commit_range push s = (Inr (), s)"
| "build_images w bp prefix (img # imgs) commit_range push s =
     (case skip_unchanged w bp img commit_range s of
        (Inl e, s1) \<Rightarrow> (Inl e, s1)
      | (Inr skip, s1) \<Rightarrow>
          (if skip then build_images w bp prefix imgs commit_range push s1
           else
             (case build_image w bp prefix img push s1 of
                (Inl e, s2) \<Rightarrow> (Inl e, s2)
              | (Inr u, s2) \<Rightarrow> build_images w bp prefix imgs commit_range push s2)))"

subsection \<open>Manifest updater\<close>

definition values_yaml :: "string \<Rightarrow> string" where
  "values_yaml bp = join (CHARTPATH bp) [''values.yaml'']"

definition chart_yaml :: "string \<Rightarrow> string" where
  "chart_yaml bp = join (CHARTPATH bp) [''Chart.yaml'']"

text \<open>
  In an assignment the right-hand side is evaluated before the target, so the tag is asked
  of git before \<^verbatim>\<open>values['image']\<close> is looked up the second time.
\<close>

definition build_values :: "tools \<Rightarrow> string \<Rightarrow> string \<Rightarrow> state \<Rightarrow> (error + unit) \<times> state" where
  "build_values w bp prefix s =
     (case load (values_yaml bp) s of
        Inl e \<Rightarrow> (Inl e, s)
      | Inr vals \<Rightarrow>
          (case setitem2 vals ''image'' ''name'' (YStr (prefix @ NAME)) of
             Inl e \<Rightarrow> (Inl e, s)
           | Inr vals1 \<Rightarrow>
               (case last_git_modified w (PathList (IMAGE_FILES bp)) s of
                  (Inl e, s1) \<Rightarrow> (Inl e, s1)
                | (Inr tag, s1) \<Rightarrow>
                    (case setitem2 vals1 ''image'' ''tag'' (YStr tag) of
                       Inl e \<Rightarrow> (Inl e, s1)
                     | Inr vals2 \<Rightarrow> (Inr (), dump (values_yaml bp) vals2 s1)))))"

text \<open>
  The new version string: \<^verbatim>\<open>chart['version'].split('-')[0] + '-' + version\<close>.
\<close>

definition new_version :: "yaml \<Rightarrow> string \<Rightarrow> error + string" where
  "new_version old version =
     (case split_version old of
        Inl e \<Rightarrow> Inl e
      | Inr pieces \<Rightarrow>
          (case index0 pieces of
             Inl e \<Rightarrow> Inl e
           | Inr p \<Rightarrow> Inr (p @ ''-'' @ version)))"

definition build_chart :: "tools \<Rightarrow> string \<Rightarrow> state \<Rightarrow> (error + yaml) \<times> state" where
  "build_chart w bp s =
     (case last_git_modified w (PathList ([bp] @ IMAGE_FILES bp)) s of
        (Inl e, s1) \<Rightarrow> (Inl e, s1)
      | (Inr version, s1) \<Rightarrow>
          (case load (chart_yaml bp) s1 of
             Inl e \<Rightarrow> (Inl e, s1)
           | Inr chart \<Rightarrow>
               (case getitem chart ''version'' of
                  Inl e \<Rightarrow> (Inl e, s1)
                | Inr raw_version \<Rightarrow>
                    (case new_version raw_version version of
                       Inl e \<Rightarrow> (Inl e, s1)
                     | Inr v \<Rightarrow>
                         (case setitem chart ''version'' (YStr v) of
                            Inl e \<Rightarrow> (Inl e, s1)
                          | Inr chart1 \<Rightarrow>
                              (Inr raw_version, dump (chart_yaml bp) chart1 s1))))))"

subsection \<open>Publisher\<close>

text \<open>
  The commands of \<^verbatim>\<open>publish_pages\<close> after the version is known, in order; each one is a
  \<^verbatim>\<open>check_call\<close>.
\<close>

definition publish_cmds :: "string \<Rightarrow> string \<Rightarrow> command list" where
  "publish_cmds bp version =
     [\<lparr>argv = [''git'', ''clone'', ''--no-checkout'',
                ''git@github.com:jupyterhub/helm-chart'', ''gh-pages''],
        cwd = None,
        git_ssh_command = Some (''ssh -i '' @ HELM_CHART_DEPLOY_KEY_NAME)\<rparr>,
      \<lparr>argv = [''git'', ''checkout'', ''gh-pages''],
        cwd = Some ''gh-pages'', git_ssh_command = None\<rparr>,
      cmd [''helm'', ''repo'', ''add'', ''jupyterhub'', ''https://jupyterhub.github.io/helm-chart/''],
      cmd [''helm'', ''repo'', ''update''],
      cmd [''helm'', ''package'', ''--dependency-update'', CHARTPATH bp,
           ''--destination'', ''gh-pages/''],
      \<lparr>argv = [''helm'', ''repo'', ''index'', ''.'',
                ''--url'', ''https://jupyterhub.github.io/helm-chart''],
        cwd = Some ''gh-pages'', git_ssh_command = None\<rparr>,
      \<lparr>argv = [''git'', ''add'', ''.''], cwd = Some ''gh-pages'', git_ssh_command = None\<rparr>,
      \<lparr>argv = [''git'', ''commit'', ''-m'',
                ''[binderhub] Automatic update for commit '' @ version],
        cwd = Some ''gh-pages'', git_ssh_command = None\<rparr>,
      \<lparr>argv = [''git'', ''push'', ''origin'', ''gh-pages''],
        cwd = Some ''gh-pages'',
        git_ssh_command = Some (''ssh -i ../'' @ HELM_CHART_DEPLOY_KEY_NAME)\<rparr>]"

fun check_calls :: "tools \<Rightarrow> command list \<Rightarrow> state \<Rightarrow> (error + unit) \<times> state" where
  "check_calls w [] s = (Inr (), s)"
| "check_calls w (c # cs) s =
     (case check_call w c s of
        (Inl e, s1) \<Rightarrow> (Inl e, s1)
      | (Inr u, s1) \<Rightarrow> check_calls w cs s1)"

definition publish_pages :: "tools \<Rightarrow> string \<Rightarrow> state \<Rightarrow> (error + unit) \<times> state" where
  "publish_pages w bp s =
     (case last_git_modified w (PathStr ''.'') s of
        (Inl e, s1) \<Rightarrow> (Inl e, s1)
      | (Inr version, s1) \<Rightarrow> check_calls w (publish_cmds bp version) s1)"

subsection \<open>Entry point\<close>

text \<open>
  The parsed command line. \<open>action\<close> is \<open>None\<close> when no subcommand was given; the only
  subcommand is \<^verbatim>\<open>build\<close>.
\<close>

record args =
  action :: "string option"
  image_prefix :: string
  commit_range :: "string option"
  push :: bool

definition images :: "string list" where
  "images = [''binderhub'']"

definition main :: "tools \<Rightarrow> string \<Rightarrow> args \<Rightarrow> state \<Rightarrow> (error + unit) \<times> state" where
  "main w bp a s =
     (if action a = Some ''build'' then
        (case build_images w bp (image_prefix a) images (commit_range a) (push a) s of
           (Inl e, s1) \<Rightarrow> (Inl e, s1)
         | (Inr u, s1) \<Rightarrow>
             (case build_values w bp (image_prefix a) s1 of
                (Inl e, s2) \<Rightarrow> (Inl e, s2)
              | (Inr u, s2) \<Rightarrow>
                  (case build_chart w bp s2 of
                     (Inl e, s3) \<Rightarrow> (Inl e, s3)
                   | (Inr chart_version, s3) \<Rightarrow>
                       (if push a then publish_pages w bp s3 else (Inr (), s3)))))
      else (Inr (), s))"

subsection \<open>Notions used to state the properties\<close>

text \<open>
  Everything before the first hyphen of a version string (the whole string when it has
  no hyphen): the version prefix of the specification.
\<close>

definition before_first_hyphen :: "string \<Rightarrow> string" where
  "before_first_hyphen s = takeWhile (\<lambda>c. c \<noteq> CHR ''-'') s"


subsection \<open>Example environments\<close>

text \<open>
  A checkout at \<^verbatim>\<open>/repo\<close>, with the script in \<^verbatim>\<open>/repo/helm-chart\<close>, and tools that answer
  in fixed ways.
\<close>

definition bp0 :: string where
  "bp0 = ''/repo/helm-chart''"

text \<open>Every command succeeds and prints \<^verbatim>\<open>def456\<close>.\<close>

definition tools_def456 :: tools where
  "tools_def456 c = \<lparr>returncode = 0, decoded = Some ''def456''\<rparr>"

text \<open>As before, but \<^verbatim>\<open>git diff\<close> prints nothing.\<close>

definition tools_unchanged :: tools where
  "tools_unchanged c =
     \<lparr>returncode = 0,
      decoded = Some (if take 2 (argv c) = [''git'', ''diff''] then [] else ''def456'')\<rparr>"


definition state0 :: state where
  "state0 = \<lparr>files = Map.empty, trace = []\<rparr>"

definition chart0 :: yaml where
  "chart0 = YMap [(''name'', YStr ''binderhub''), (''version'', YStr ''1.2.3-abc123'')]"

definition state_chart0 :: state where
  "state_chart0 =
     \<lparr>files = [''/repo/helm-chart/binderhub/Chart.yaml'' \<mapsto> chart0], trace = []\<rparr>"

text \<open>
  A git that answers \<^verbatim>\<open>git log -n 1 --pretty=format:%h -- paths\<close> from a recorded history, the
  newest commit first, each commit with its abbreviated identifier and the files it
  changed. As git does, it prints the identifier of the newest commit that changed a file
  at or below one of the paths, prints nothing (and still exits with status 0) when no
  commit did, and exits with status 128 when the history has no commit at all. Every
  other command succeeds and prints nothing.
\<close>

definition touches :: "string \<Rightarrow> string \<Rightarrow> bool" where
  "touches pathspec f = (f = pathspec \<or> take (length pathspec + 1) f = pathspec @ ''/'')"

definition touched_by :: "string \<times> string list \<Rightarrow> string list \<Rightarrow> bool" where
  "touched_by commit ps = list_ex (\<lambda>p. list_ex (touches p) (snd commit)) ps"

definition newest_touching :: "(string \<times> string list) list \<Rightarrow> string list \<Rightarrow> string" where
  "newest_touching h ps =
     (case find (\<lambda>commit. touched_by commit ps) h of
        None \<Rightarrow> []
      | Some commit \<Rightarrow> fst commit)"

definition history_git :: "(string \<times> string list) list \<Rightarrow> tools" where
  "history_git h c =
     (if take 6 (argv c) = [''git'', ''log'', ''-n'', ''1'', ''--pretty=format:%h'', ''--'']
      then (if h = [] then \<lparr>returncode = 128, decoded = Some []\<rparr>
            else \<lparr>returncode = 0, decoded = Some (newest_touching h (drop 6 (argv c)))\<rparr>)
      else \<lparr>returncode = 0, decoded = Some []\<rparr>)"

text \<open>
  A history of two commits: the older one changed the chart and \<^verbatim>\<open>setup.py\<close>, the newer one
  only the build script.
\<close>

definition history0 :: "(string \<times> string list) list" where
  "history0 =
     [(''bbb2222'', [''/repo/helm-chart/build.py'']),
      (''aaa1111'', [''/repo/helm-chart/binderhub/Chart.yaml'', ''/repo/setup.py''])]"

definition values0 :: yaml where
  "values0 =
     YMap [(''replicas'', YInt 2),
           (''image'', YMap [(''name'', YStr ''jupyterhub/k8s-binderhub''),
                             (''tag'', YStr ''local'')])]"

text \<open>Both documents on disk.\<close>

definition state_docs0 :: state where
  "state_docs0 =
     \<lparr>files = [''/repo/helm-chart/binderhub/values.yaml'' \<mapsto> values0,
               ''/repo/helm-chart/binderhub/Chart.yaml'' \<mapsto> chart0],
      trace = []\<rparr>"

text \<open>
  The events by stage, told apart by the program and its first argument. A registry push is \<^verbatim>\<open>docker push\<close>. A publish event is a command that
  \<^verbatim>\<open>publish_pages\<close> runs: \<^verbatim>\<open>git log\<close> for the path \<^verbatim>\<open>.\<close>, any \<^verbatim>\<open>helm\<close> command, and \<^verbatim>\<open>git\<close> with
  \<^verbatim>\<open>clone\<close>, \<^verbatim>\<open>checkout\<close>, \<^verbatim>\<open>add\<close>, \<^verbatim>\<open>commit\<close> or \<^verbatim>\<open>push\<close>. A build event is a printed line or one
  of the commands of the image build and the two manifest rewrites: \<^verbatim>\<open>git diff\<close>,
  \<^verbatim>\<open>git log\<close> for the image files or for the paths of the chart version, and \<^verbatim>\<open>docker build\<close>.
\<close>

definition verb :: "command \<Rightarrow> string list" where
  "verb c = take 2 (argv c)"

definition is_docker_push :: "event \<Rightarrow> bool" where
  "is_docker_push ev =
     (case ev of Exec c \<Rightarrow> verb c = [''docker'', ''push''] | Print m \<Rightarrow> False)"

definition is_publish :: "event \<Rightarrow> bool" where
  "is_publish ev =
     (case ev of
        Exec c \<Rightarrow>
          c = git_log_cmd [''.''] \<or> take 1 (verb c) = [''helm'']
          \<or> verb c \<in> set [[''git'', ''clone''], [''git'', ''checkout''], [''git'', ''add''],
                           [''git'', ''commit''], [''git'', ''push'']]
      | Print m \<Rightarrow> False)"

definition is_build_event :: "string \<Rightarrow> event \<Rightarrow> bool" where
  "is_build_event bp ev =
     (case ev of
        Exec c \<Rightarrow>
          c = git_log_cmd (IMAGE_FILES bp) \<or> c = git_log_cmd ([bp] @ IMAGE_FILES bp)
          \<or> verb c = [''git'', ''diff''] \<or> verb c = [''docker'', ''build'']
      | Print m \<Rightarrow> True)"

text \<open>
  From \<open>s\<close> to \<open>s'\<close> the trace was only extended, and every event added satisfies \<open>P\<close>.
\<close>

definition only_events :: "(event \<Rightarrow> bool) \<Rightarrow> state \<Rightarrow> state \<Rightarrow> bool" where
  "only_events P s s' =
     (take (length (trace s)) (trace s') = trace s
      \<and> list_all P (drop (length (trace s)) (trace s')))"

definition args_build :: args where
  "args_build =
     \<lparr>action = Some ''build'', image_prefix = ''acme/k8s-'', commit_range = None, push = False\<rparr>"

text \<open>A build over a commit range, without push.\<close>

definition args_range :: args where
  "args_range =
     \<lparr>action = Some ''build'', image_prefix = ''acme/k8s-'',
      commit_range = Some ''HEAD~1..HEAD'', push = False\<rparr>"

section \<open>Basic facts\<close>

lemma files_emit [simp]: "files (emit ev s) = files s"
  by (simp add: emit_def)

lemma trace_emit [simp]: "trace (emit ev s) = trace s @ [ev]"
  by (simp add: emit_def)

lemma files_dump [simp]: "files (dump p d s) = (files s)(p \<mapsto> d)"
  by (simp add: dump_def)

lemma trace_dump [simp]: "trace (dump p d s) = trace s"
  by (simp add: dump_def)

lemma path_list_simps [simp]: "path_list (PathList l) = l" "path_list (PathStr p) = [p]"
  by (simp_all add: path_list_def)

text \<open>The primitives as one equation each: the result, and the state with the call recorded.\<close>

lemma check_call_eq:
  "check_call w c s =
     (if returncode (w c) \<noteq> 0 then Inl (CalledProcessError (argv c) (returncode (w c)))
      else Inr (),
      emit (Exec c) s)"
  by (simp add: check_call_def Let_def)

lemma last_git_modified_eq:
  "last_git_modified w ps s =
     (if returncode (w (git_log_cmd (path_list ps))) \<noteq> 0
      then Inl (CalledProcessError (argv (git_log_cmd (path_list ps)))
                  (returncode (w (git_log_cmd (path_list ps)))))
      else decode (w (git_log_cmd (path_list ps))),
      emit (Exec (git_log_cmd (path_list ps))) s)"
  by (simp add: last_git_modified_def check_output_def Let_def)

lemma last_git_modified_fst_Inr:
  "fst (last_git_modified w ps s) = Inr v \<longleftrightarrow>
     returncode (w (git_log_cmd (path_list ps))) = 0
     \<and> decoded (w (git_log_cmd (path_list ps))) = Some v"
  by (auto simp: last_git_modified_eq decode_def split: option.splits)

lemma path_changed_eq:
  "path_changed w ps r s =
     (if returncode (w (git_diff_cmd (path_list ps) r)) \<noteq> 0
      then Inl (CalledProcessError (argv (git_diff_cmd (path_list ps) r))
                  (returncode (w (git_diff_cmd (path_list ps) r))))
      else (case decoded (w (git_diff_cmd (path_list ps) r)) of
              None \<Rightarrow> Inl UnicodeDecodeError
            | Some t \<Rightarrow> Inr (strip t \<noteq> [])),
      emit (Exec (git_diff_cmd (path_list ps) r)) s)"
  by (simp add: path_changed_def check_output_def Let_def decode_def split: option.splits)

subsection \<open>Strings\<close>

lemma index0_split: "index0 (split sep s) = Inr (takeWhile (\<lambda>c. c \<noteq> sep) s)"
  by (induction s) (auto simp: index0_def split: list.splits)

lemma new_version_str: "new_version (YStr old) v = Inr (before_first_hyphen old @ ''-'' @ v)"
  by (simp add: new_version_def split_version_def index0_split before_first_hyphen_def)

lemma before_first_hyphen_stamp:
  "before_first_hyphen (before_first_hyphen old @ CHR ''-'' # v) = before_first_hyphen old"
  by (simp add: before_first_hyphen_def takeWhile_tail)


subsection \<open>The stages, one by one\<close>

lemma skip_unchanged_bypass:
  "cr = None \<or> cr = Some [] \<Longrightarrow> skip_unchanged w bp img cr s = (Inr False, s)"
  by (auto simp: skip_unchanged_def)

lemma build_image_eq:
  assumes "returncode (w (git_log_cmd (IMAGE_FILES bp))) = 0"
      and "decoded (w (git_log_cmd (IMAGE_FILES bp))) = Some tag"
  shows "build_image w bp prefix img do_push s =
           (if returncode (w (docker_build_cmd (image_spec prefix img tag) tag
                                (join bp [''images'', img]))) \<noteq> 0 \<or> \<not> do_push
            then check_call w (docker_build_cmd (image_spec prefix img tag) tag
                                 (join bp [''images'', img]))
                   (emit (Exec (git_log_cmd (IMAGE_FILES bp))) s)
            else check_call w (docker_push_cmd (image_spec prefix img tag))
                   (emit (Exec (docker_build_cmd (image_spec prefix img tag) tag
                                  (join bp [''images'', img])))
                      (emit (Exec (git_log_cmd (IMAGE_FILES bp))) s)))"
  using assms
  by (simp add: build_image_def last_git_modified_eq decode_def check_call_eq Let_def)

lemma setitem2_map:
  assumes "map_of kvs k1 = Some (YMap ikvs)"
  shows "setitem2 (YMap kvs) k1 k2 v =
           Inr (YMap (AList.update k1 (YMap (AList.update k2 v ikvs)) kvs))"
  using assms by (simp add: setitem2_def getitem_def setitem_def)

lemma build_values_ok:
  assumes "returncode (w (git_log_cmd (IMAGE_FILES bp))) = 0"
      and "decoded (w (git_log_cmd (IMAGE_FILES bp))) = Some v"
      and "files s (values_yaml bp) = Some (YMap kvs)"
      and "map_of kvs ''image'' = Some (YMap ikvs)"
  shows "build_values w bp prefix s =
           (Inr (),
            dump (values_yaml bp)
              (YMap (AList.update ''image''
                 (YMap (AList.update ''tag'' (YStr v)
                          (AList.update ''name'' (YStr (prefix @ NAME)) ikvs))) kvs))
              (emit (Exec (git_log_cmd (IMAGE_FILES bp))) s))"
proof -
  have first: "setitem2 (YMap kvs) ''image'' ''name'' (YStr (prefix @ NAME)) =
      Inr (YMap (AList.update ''image''
                   (YMap (AList.update ''name'' (YStr (prefix @ NAME)) ikvs)) kvs))"
    using assms(4) by (rule setitem2_map)
  have "map_of (AList.update ''image''
                  (YMap (AList.update ''name'' (YStr (prefix @ NAME)) ikvs)) kvs) ''image'' =
      Some (YMap (AList.update ''name'' (YStr (prefix @ NAME)) ikvs))"
    by (simp add: update_conv')
  then have second: "setitem2 (YMap (AList.update ''image''
                   (YMap (AList.update ''name'' (YStr (prefix @ NAME)) ikvs)) kvs))
        ''image'' ''tag'' (YStr v) =
      Inr (YMap (AList.update ''image''
                   (YMap (AList.update ''tag'' (YStr v)
                            (AList.update ''name'' (YStr (prefix @ NAME)) ikvs))) kvs))"
    by (simp add: setitem2_map)
  from assms(1-3) show ?thesis
    unfolding build_values_def
    by (simp add: load_def first second last_git_modified_eq decode_def)
qed

lemma build_chart_ok:
  assumes "last_git_modified w (PathList ([bp] @ IMAGE_FILES bp)) s = (Inr v, s1)"
      and "files s (chart_yaml bp) = Some (YMap kvs)"
      and "map_of kvs ''version'' = Some (YStr old)"
  shows "build_chart w bp s =
           (Inr (YStr old),
            dump (chart_yaml bp)
              (YMap (AList.update ''version'' (YStr (before_first_hyphen old @ ''-'' @ v)) kvs))
              s1)"
proof -
  from assms(1) have "s1 = emit (Exec (git_log_cmd ([bp] @ IMAGE_FILES bp))) s"
    by (simp add: last_git_modified_eq)
  with assms(2) have "load (chart_yaml bp) s1 = Inr (YMap kvs)"
    by (simp add: load_def)
  with assms(1,3) show ?thesis
    by (simp add: build_chart_def getitem_def setitem_def new_version_str)
qed

lemma values_chart_distinct: "values_yaml bp \<noteq> chart_yaml bp"
  by (simp add: values_yaml_def chart_yaml_def)

lemma path_changed_fst_False:
  "fst (path_changed w ps r s) = Inr False \<longleftrightarrow>
     returncode (w (git_diff_cmd (path_list ps) r)) = 0
     \<and> (\<exists>t. decoded (w (git_diff_cmd (path_list ps) r)) = Some t \<and> strip t = [])"
  by (auto simp: path_changed_eq split: option.splits)

lemma build_images_all_skipped:
  assumes "r \<noteq> []"
      and "fst (path_changed w (PathList (IMAGE_FILES bp)) r s0) = Inr False"
  shows "build_images w bp prefix imgs (Some r) do_push s =
           (Inr (),
            s\<lparr>trace := trace s @ concat (map (\<lambda>img. [Exec (git_diff_cmd (IMAGE_FILES bp) r),
                                                     Print (skip_message img r)]) imgs)\<rparr>)"
proof (induction imgs arbitrary: s)
  case Nil
  show ?case by simp
next
  case (Cons img imgs)
  from assms(2) have "path_changed w (PathList (IMAGE_FILES bp)) r s =
      (Inr False, emit (Exec (git_diff_cmd (IMAGE_FILES bp) r)) s)"
    by (auto simp: path_changed_eq split: option.splits if_splits)
  with assms(1) have "skip_unchanged w bp img (Some r) s =
      (Inr True, emit (Print (skip_message img r)) (emit (Exec (git_diff_cmd (IMAGE_FILES bp) r)) s))"
    by (simp add: skip_unchanged_def)
  then show ?case
    by (simp add: Cons.IH emit_def)
qed

lemma build_chart_Inr_version:
  assumes "build_chart w bp s = (Inr r, s')"
  shows "\<exists>chart. files s (chart_yaml bp) = Some chart \<and> getitem chart ''version'' = Inr r"
  using assms
  unfolding build_chart_def load_def last_git_modified_eq
  by (auto split: option.splits sum.splits if_splits)

subsection \<open>Files\<close>

lemma files_skip_unchanged: "files (snd (skip_unchanged w bp img cr s)) = files s"
  by (auto simp: skip_unchanged_def path_changed_eq split: option.splits)

lemma files_build_image: "files (snd (build_image w bp prefix img do_push s)) = files s"
  by (auto simp: build_image_def last_git_modified_eq check_call_eq Let_def
      split: sum.splits simp del: join.simps)

lemma files_build_images: "files (snd (build_images w bp prefix imgs cr do_push s)) = files s"
proof (induction imgs arbitrary: s)
  case Nil
  show ?case by simp
next
  case (Cons img imgs)
  have a: "files (snd (skip_unchanged w bp img cr s)) = files s"
    by (rule files_skip_unchanged)
  have b: "\<And>s1. files (snd (build_image w bp prefix img do_push s1)) = files s1"
    by (rule files_build_image)
  show ?case
    using a b [of "snd (skip_unchanged w bp img cr s)"] Cons.IH
    by (auto split: prod.splits sum.splits)
qed

lemma files_build_values:
  "p \<noteq> values_yaml bp \<Longrightarrow> files (snd (build_values w bp prefix s)) p = files s p"
  by (auto simp: build_values_def last_git_modified_eq split: sum.splits)

lemma files_build_chart:
  "p \<noteq> chart_yaml bp \<Longrightarrow> files (snd (build_chart w bp s)) p = files s p"
  by (auto simp: build_chart_def last_git_modified_eq split: sum.splits)

lemma files_check_calls: "files (snd (check_calls w cs s)) = files s"
  by (induction cs arbitrary: s) (auto simp: check_call_eq)

lemma files_publish_pages: "files (snd (publish_pages w bp s)) = files s"
  by (auto simp: publish_pages_def last_git_modified_eq files_check_calls split: sum.splits)

subsection \<open>Traces\<close>

lemma only_events_iff:
  "only_events P s s' \<longleftrightarrow> (\<exists>evs. trace s' = trace s @ evs \<and> list_all P evs)"
proof
  assume "only_events P s s'"
  then have "trace s' = trace s @ drop (length (trace s)) (trace s')"
      and "list_all P (drop (length (trace s)) (trace s'))"
    unfolding only_events_def by (metis append_take_drop_id, simp)
  then show "\<exists>evs. trace s' = trace s @ evs \<and> list_all P evs"
    by blast
next
  assume "\<exists>evs. trace s' = trace s @ evs \<and> list_all P evs"
  then show "only_events P s s'"
    by (auto simp: only_events_def)
qed

lemma only_events_refl: "only_events P s s"
  by (simp add: only_events_def)

lemma only_events_trans:
  "only_events P s s1 \<Longrightarrow> only_events P s1 s2 \<Longrightarrow> only_events P s s2"
  by (auto simp: only_events_iff)

lemma only_events_emit: "only_events P s s1 \<Longrightarrow> P ev \<Longrightarrow> only_events P s (emit ev s1)"
  by (auto simp: only_events_iff)

lemma only_events_dump: "only_events P s s1 \<Longrightarrow> only_events P s (dump p d s1)"
  by (auto simp: only_events_iff)

lemma only_events_mono:
  "only_events P s s1 \<Longrightarrow> (\<And>ev. P ev \<Longrightarrow> Q ev) \<Longrightarrow> only_events Q s s1"
  by (auto simp: only_events_iff list_all_iff)

lemma build_images_only_events:
  assumes skip: "\<And>img s. only_events P s (snd (skip_unchanged w bp img cr s))"
      and body: "\<And>img s. only_events P s (snd (build_image w bp prefix img do_push s))"
  shows "only_events P s (snd (build_images w bp prefix imgs cr do_push s))"
proof (induction imgs arbitrary: s)
  case Nil
  show ?case by (simp add: only_events_refl)
next
  case (Cons img imgs)
  show ?case
  proof (cases "skip_unchanged w bp img cr s")
    case (Pair r s1)
    with skip [of s img] have s1: "only_events P s s1"
      by simp
    show ?thesis
    proof (cases r)
      case (Inl e)
      with Pair s1 show ?thesis by simp
    next
      case (Inr skipped)
      show ?thesis
      proof (cases skipped)
        case True
        with Pair Inr have "build_images w bp prefix (img # imgs) cr do_push s =
            build_images w bp prefix imgs cr do_push s1"
          by simp
        with only_events_trans [OF s1 Cons.IH [of s1]] show ?thesis
          by simp
      next
        case False
        show ?thesis
        proof (cases "build_image w bp prefix img do_push s1")
          case built: (Pair r2 s2)
          with body [of s1 img] have s2: "only_events P s1 s2"
            by simp
          show ?thesis
          proof (cases r2)
            case bad: (Inl e)
            with Pair Inr False built only_events_trans [OF s1 s2] show ?thesis
              by simp
          next
            case good: (Inr u)
            with Pair Inr False built have "build_images w bp prefix (img # imgs) cr do_push s =
                build_images w bp prefix imgs cr do_push s2"
              by simp
            with only_events_trans [OF only_events_trans [OF s1 s2] Cons.IH [of s2]]
            show ?thesis
              by simp
          qed
        qed
      qed
    qed
  qed
qed

lemma build_images_extends:
  "\<exists>evs. trace (snd (build_images w bp prefix imgs cr do_push s)) = trace s @ evs"
proof -
  have "only_events (\<lambda>ev. True) s1 (snd (skip_unchanged w bp img cr s1))" for img s1
    by (auto simp: skip_unchanged_def path_changed_eq
        intro!: only_events_emit only_events_refl split: option.splits)
  moreover have "only_events (\<lambda>ev. True) s1 (snd (build_image w bp prefix img do_push s1))"
    for img s1
    by (auto simp: build_image_def last_git_modified_eq check_call_eq Let_def
        intro!: only_events_emit only_events_refl split: sum.splits simp del: join.simps)
  ultimately have "only_events (\<lambda>ev. True) s (snd (build_images w bp prefix imgs cr do_push s))"
    by (rule build_images_only_events)
  then show ?thesis
    by (auto simp: only_events_iff)
qed

lemma build_image_starts:
  assumes "returncode (w (git_log_cmd (IMAGE_FILES bp))) = 0"
      and "decoded (w (git_log_cmd (IMAGE_FILES bp))) = Some tag"
  shows "\<exists>evs. trace (snd (build_image w bp prefix img do_push s)) =
           trace s @ [Exec (git_log_cmd (IMAGE_FILES bp)),
                      Exec (docker_build_cmd (image_spec prefix img tag) tag
                              (join bp [''images'', img]))] @ evs"
  using assms
  by (simp add: build_image_eq check_call_eq del: join.simps)

lemma build_images_starts:
  assumes "skip_unchanged w bp img cr s = (Inr False, s1)"
      and "returncode (w (git_log_cmd (IMAGE_FILES bp))) = 0"
      and "decoded (w (git_log_cmd (IMAGE_FILES bp))) = Some tag"
  shows "take 2 (drop (length (trace s1))
                   (trace (snd (build_images w bp prefix (img # imgs) cr do_push s)))) =
           [Exec (git_log_cmd (IMAGE_FILES bp)),
            Exec (docker_build_cmd (image_spec prefix img tag) tag (join bp [''images'', img]))]"
proof -
  from build_image_starts
    [where w = w and bp = bp and tag = tag and prefix = prefix and img = img
       and do_push = do_push and s = s1, OF assms(2,3)]
  obtain evs where
    body: "trace (snd (build_image w bp prefix img do_push s1)) =
      trace s1 @ [Exec (git_log_cmd (IMAGE_FILES bp)),
                  Exec (docker_build_cmd (image_spec prefix img tag) tag
                          (join bp [''images'', img]))] @ evs"
    by blast
  obtain r2 s2 where built: "build_image w bp prefix img do_push s1 = (r2, s2)"
    by (cases "build_image w bp prefix img do_push s1")
  from build_images_extends [of w bp prefix imgs cr do_push s2] obtain evs2 where
    rest: "trace (snd (build_images w bp prefix imgs cr do_push s2)) = trace s2 @ evs2"
    by blast
  have "\<exists>evs3. trace (snd (build_images w bp prefix (img # imgs) cr do_push s)) =
      trace s1 @ [Exec (git_log_cmd (IMAGE_FILES bp)),
                  Exec (docker_build_cmd (image_spec prefix img tag) tag
                          (join bp [''images'', img]))] @ evs3"
    using assms(1) built body rest
    by (cases r2) (simp_all del: join.simps)
  then show ?thesis
    by auto
qed

subsection \<open>The example environments\<close>

lemma chart_yaml_bp0: "chart_yaml bp0 = ''/repo/helm-chart/binderhub/Chart.yaml''"
  by (simp add: chart_yaml_def CHARTPATH_def bp0_def)

lemma values_yaml_bp0: "values_yaml bp0 = ''/repo/helm-chart/binderhub/values.yaml''"
  by (simp add: values_yaml_def CHARTPATH_def bp0_def)

lemma image_files_bp0:
  "IMAGE_FILES bp0 = [''/repo/setup.py'', ''/repo/binderhub'', ''/repo/helm-chart/images/binderhub'']"
  by (simp add: IMAGE_FILES_def SETUP_PY_def PYPKGPATH_def IMAGE_PATH_def ROOTPATH_def
      dirname_def NAME_def bp0_def)

lemma chart_paths_bp0:
  "[bp0] @ IMAGE_FILES bp0 =
     [''/repo/helm-chart'', ''/repo/setup.py'', ''/repo/binderhub'',
      ''/repo/helm-chart/images/binderhub'']"
  by (simp add: image_files_bp0) (simp add: bp0_def)

lemma chart_paths_bp0_cons:
  "bp0 # IMAGE_FILES bp0 =
     [''/repo/helm-chart'', ''/repo/setup.py'', ''/repo/binderhub'',
      ''/repo/helm-chart/images/binderhub'']"
  using chart_paths_bp0 by simp

lemma setup_paths_bp0:
  "values_yaml bp0 = ''/repo/helm-chart/binderhub/values.yaml''"
  "chart_yaml bp0 = ''/repo/helm-chart/binderhub/Chart.yaml''"
  "IMAGE_FILES bp0 = [''/repo/setup.py'', ''/repo/binderhub'', ''/repo/helm-chart/images/binderhub'']"
  "join bp0 [''images'', ''binderhub''] = ''/repo/helm-chart/images/binderhub''"
  by (simp_all add: values_yaml_bp0 chart_yaml_bp0 image_files_bp0) (simp add: bp0_def)

lemma last_git_modified_def456:
  "last_git_modified tools_def456 ps s =
     (Inr ''def456'', emit (Exec (git_log_cmd (path_list ps))) s)"
  by (simp add: last_git_modified_eq tools_def456_def decode_def)

section \<open>The chart version keeps its prefix\<close>

text \<open>
  C1. When the version stamper returns the identifier \<open>v\<close> and the chart document holds
  the version string \<open>old\<close>, \<^verbatim>\<open>build_chart\<close> writes the document back with the version
  \<open>before_first_hyphen old @ ''-'' @ v\<close>: the part of the old version before its first
  hyphen, a hyphen, and the new identifier. The part before the first hyphen of the new
  version is that of the old one, so every rewrite keeps it.
\<close>

theorem build_chart_version_prefix:
  assumes "last_git_modified w (PathList ([bp] @ IMAGE_FILES bp)) s = (Inr v, s1)"
      and "files s (chart_yaml bp) = Some (YMap kvs)"
      and "map_of kvs ''version'' = Some (YStr old)"
  shows "files (snd (build_chart w bp s)) (chart_yaml bp) =
           Some (YMap (AList.update ''version''
                         (YStr (before_first_hyphen old @ ''-'' @ v)) kvs))
         \<and> getitem (YMap (AList.update ''version''
                         (YStr (before_first_hyphen old @ ''-'' @ v)) kvs)) ''version'' =
             Inr (YStr (before_first_hyphen old @ ''-'' @ v))
         \<and> before_first_hyphen (before_first_hyphen old @ ''-'' @ v) = before_first_hyphen old"
  using build_chart_ok [OF assms]
  by (simp add: getitem_def update_conv' before_first_hyphen_stamp)

text \<open>The old version \<^verbatim>\<open>1.2.3-abc123\<close> and the identifier \<^verbatim>\<open>def456\<close> give \<^verbatim>\<open>1.2.3-def456\<close>.\<close>

theorem build_chart_version_prefix_witness:
  "files (snd (build_chart tools_def456 bp0 state_chart0)) (chart_yaml bp0) =
     Some (YMap [(''name'', YStr ''binderhub''), (''version'', YStr ''1.2.3-def456'')])
   \<and> before_first_hyphen ''1.2.3-def456'' = ''1.2.3''"
  using build_chart_version_prefix
    [OF last_git_modified_def456,
     where bp = bp0 and s = state_chart0
       and kvs = "[(''name'', YStr ''binderhub''), (''version'', YStr ''1.2.3-abc123'')]"
       and old = "''1.2.3-abc123''"]
  by (simp add: chart_yaml_bp0 state_chart0_def chart0_def before_first_hyphen_def)

section \<open>The value that \<^verbatim>\<open>build_chart\<close> returns\<close>

text \<open>
  C2. Whatever \<^verbatim>\<open>build_chart\<close> returns is the value of \<^verbatim>\<open>chart['version']\<close> in the chart document
  as it was on disk before the call. And it does return: when the version stamper returns an
  identifier and the document holds the version string \<open>old\<close>, the result is \<open>old\<close>, while
  the document written back holds the new version.
\<close>

theorem build_chart_returns_old_version:
  "(build_chart w bp s = (Inr r, s')
      \<longrightarrow> (\<exists>chart. files s (chart_yaml bp) = Some chart \<and> getitem chart ''version'' = Inr r))
   \<and> (last_git_modified w (PathList ([bp] @ IMAGE_FILES bp)) s = (Inr v, s1)
        \<and> files s (chart_yaml bp) = Some (YMap kvs)
        \<and> map_of kvs ''version'' = Some (YStr old)
      \<longrightarrow> fst (build_chart w bp s) = Inr (YStr old)
          \<and> getitem (YMap kvs) ''version'' = Inr (YStr old)
          \<and> files (snd (build_chart w bp s)) (chart_yaml bp) =
              Some (YMap (AList.update ''version''
                            (YStr (before_first_hyphen old @ ''-'' @ v)) kvs)))"
proof (intro conjI impI)
  assume "build_chart w bp s = (Inr r, s')"
  then show "\<exists>chart. files s (chart_yaml bp) = Some chart \<and> getitem chart ''version'' = Inr r"
    by (rule build_chart_Inr_version)
next
  assume a: "last_git_modified w (PathList ([bp] @ IMAGE_FILES bp)) s = (Inr v, s1)
      \<and> files s (chart_yaml bp) = Some (YMap kvs)
      \<and> map_of kvs ''version'' = Some (YStr old)"
  then have ok: "build_chart w bp s =
      (Inr (YStr old),
       dump (chart_yaml bp)
         (YMap (AList.update ''version'' (YStr (before_first_hyphen old @ ''-'' @ v)) kvs)) s1)"
    by (simp add: build_chart_ok)
  from ok show "fst (build_chart w bp s) = Inr (YStr old)"
    by simp
  from a show "getitem (YMap kvs) ''version'' = Inr (YStr old)"
    by (simp add: getitem_def)
  from ok show "files (snd (build_chart w bp s)) (chart_yaml bp) =
      Some (YMap (AList.update ''version'' (YStr (before_first_hyphen old @ ''-'' @ v)) kvs))"
    by simp
qed

theorem build_chart_returns_old_version_witness:
  "fst (build_chart tools_def456 bp0 state_chart0) = Inr (YStr ''1.2.3-abc123'')
   \<and> files (snd (build_chart tools_def456 bp0 state_chart0)) (chart_yaml bp0) =
       Some (YMap [(''name'', YStr ''binderhub''), (''version'', YStr ''1.2.3-def456'')])"
proof -
  have pre: "last_git_modified tools_def456 (PathList ([bp0] @ IMAGE_FILES bp0)) state_chart0 =
        (Inr ''def456'', emit (Exec (git_log_cmd ([bp0] @ IMAGE_FILES bp0))) state_chart0)
      \<and> files state_chart0 (chart_yaml bp0) =
          Some (YMap [(''name'', YStr ''binderhub''), (''version'', YStr ''1.2.3-abc123'')])
      \<and> map_of [(''name'', YStr ''binderhub''), (''version'', YStr ''1.2.3-abc123'')] ''version'' =
          Some (YStr ''1.2.3-abc123'')"
    by (simp add: last_git_modified_def456 chart_yaml_bp0 state_chart0_def chart0_def)
  note inst = build_chart_returns_old_version
    [where w = tools_def456 and bp = bp0 and s = state_chart0 and v = "''def456''"
       and ?s1.0 = "emit (Exec (git_log_cmd ([bp0] @ IMAGE_FILES bp0))) state_chart0"
       and kvs = "[(''name'', YStr ''binderhub''), (''version'', YStr ''1.2.3-abc123'')]"
       and old = "''1.2.3-abc123''"]
  from inst pre have
    "fst (build_chart tools_def456 bp0 state_chart0) = Inr (YStr ''1.2.3-abc123'')
     \<and> files (snd (build_chart tools_def456 bp0 state_chart0)) (chart_yaml bp0) =
         Some (YMap (AList.update ''version''
                 (YStr (before_first_hyphen ''1.2.3-abc123'' @ ''-'' @ ''def456''))
                 [(''name'', YStr ''binderhub''), (''version'', YStr ''1.2.3-abc123'')]))"
    by blast
  then show ?thesis
    by (simp add: before_first_hyphen_def)
qed

section \<open>The skip policy of the image builder\<close>

text \<open>
  C3. When a commit range \<open>r\<close> is supplied (a string that is not empty) and the change
  detector reports the image files unchanged over it, \<^verbatim>\<open>build_images\<close> does, for every
  component, the \<^verbatim>\<open>git diff\<close> call and the printed skip message and nothing else: no
  \<^verbatim>\<open>git log\<close> call computes a tag, no \<^verbatim>\<open>docker\<close> command runs, no file changes, and the result
  is normal. When no commit range is supplied (\<open>None\<close>, or the empty string, which
  \<^verbatim>\<open>if commit_range:\<close> treats alike) the change check does nothing and never skips, and once
  the version stamper has returned the tag the first two commands are \<^verbatim>\<open>git log\<close> and
  \<^verbatim>\<open>docker build\<close> for the first component.
\<close>

theorem build_images_skip_policy:
  "(r \<noteq> [] \<and> fst (path_changed w (PathList (IMAGE_FILES bp)) r s) = Inr False
      \<longrightarrow> build_images w bp prefix imgs (Some r) do_push s =
            (Inr (),
             s\<lparr>trace := trace s @
                  concat (map (\<lambda>img. [Exec (git_diff_cmd (IMAGE_FILES bp) r),
                                       Print (skip_message img r)]) imgs)\<rparr>))
   \<and> ((cr = None \<or> cr = Some [])
      \<longrightarrow> skip_unchanged w bp img cr s = (Inr False, s)
          \<and> (fst (last_git_modified w (PathList (IMAGE_FILES bp)) s) = Inr tag
              \<longrightarrow> take 2 (drop (length (trace s))
                            (trace (snd (build_images w bp prefix (img # imgs) cr do_push s)))) =
                    [Exec (git_log_cmd (IMAGE_FILES bp)),
                     Exec (docker_build_cmd (image_spec prefix img tag) tag
                             (join bp [''images'', img]))]))"
proof (intro conjI impI)
  assume "r \<noteq> [] \<and> fst (path_changed w (PathList (IMAGE_FILES bp)) r s) = Inr False"
  then have "r \<noteq> []" and "fst (path_changed w (PathList (IMAGE_FILES bp)) r s) = Inr False"
    by simp_all
  then show "build_images w bp prefix imgs (Some r) do_push s =
      (Inr (),
       s\<lparr>trace := trace s @
            concat (map (\<lambda>img. [Exec (git_diff_cmd (IMAGE_FILES bp) r),
                                 Print (skip_message img r)]) imgs)\<rparr>)"
    by (rule build_images_all_skipped)
next
  assume none: "cr = None \<or> cr = Some []"
  then show bypass: "skip_unchanged w bp img cr s = (Inr False, s)"
    by (rule skip_unchanged_bypass)
  assume "fst (last_git_modified w (PathList (IMAGE_FILES bp)) s) = Inr tag"
  then have "returncode (w (git_log_cmd (IMAGE_FILES bp))) = 0"
      and "decoded (w (git_log_cmd (IMAGE_FILES bp))) = Some tag"
    by (simp_all add: last_git_modified_fst_Inr)
  with bypass show "take 2 (drop (length (trace s))
        (trace (snd (build_images w bp prefix (img # imgs) cr do_push s)))) =
      [Exec (git_log_cmd (IMAGE_FILES bp)),
       Exec (docker_build_cmd (image_spec prefix img tag) tag (join bp [''images'', img]))]"
    by (rule build_images_starts)
qed

theorem build_images_skip_policy_witness:
  "build_images tools_unchanged bp0 ''jupyterhub/k8s-'' [''binderhub''] (Some ''HEAD~1..HEAD'')
      False state0 =
     (Inr (),
      \<lparr>files = Map.empty,
       trace = [Exec (cmd [''git'', ''diff'', ''--name-only'', ''HEAD~1..HEAD'', ''--'',
                           ''/repo/setup.py'', ''/repo/binderhub'',
                           ''/repo/helm-chart/images/binderhub'']),
                Print ''Skipping binderhub, not touched in HEAD~1..HEAD'']\<rparr>)
   \<and> take 2 (drop (length (trace state0))
        (trace (snd (build_images tools_unchanged bp0 ''jupyterhub/k8s-'' [''binderhub''] None
                       False state0)))) =
       [Exec (cmd [''git'', ''log'', ''-n'', ''1'', ''--pretty=format:%h'', ''--'',
                   ''/repo/setup.py'', ''/repo/binderhub'',
                   ''/repo/helm-chart/images/binderhub'']),
        Exec (cmd [''docker'', ''build'', ''-t'', ''jupyterhub/k8s-binderhub:def456'',
                   ''--build-arg'', ''BINDERHUB_VERSION=def456'',
                   ''/repo/helm-chart/images/binderhub''])]"
proof -
  have pc: "''HEAD~1..HEAD'' \<noteq> []
      \<and> fst (path_changed tools_unchanged (PathList (IMAGE_FILES bp0)) ''HEAD~1..HEAD'' state0) =
          Inr False"
    by (simp add: path_changed_eq tools_unchanged_def git_diff_cmd_def cmd_def strip_def)
  have lg: "fst (last_git_modified tools_unchanged (PathList (IMAGE_FILES bp0)) state0) =
      Inr ''def456''"
    by (simp add: last_git_modified_eq tools_unchanged_def git_log_cmd_def cmd_def decode_def)
  note inst = build_images_skip_policy
    [where w = tools_unchanged and bp = bp0 and r = "''HEAD~1..HEAD''" and s = state0
       and prefix = "''jupyterhub/k8s-''" and img = "''binderhub''" and imgs = "[]"
       and do_push = False and cr = None and tag = "''def456''"]
  note inst1 = build_images_skip_policy
    [where w = tools_unchanged and bp = bp0 and r = "''HEAD~1..HEAD''" and s = state0
       and prefix = "''jupyterhub/k8s-''" and imgs = "[''binderhub'']"
       and do_push = False and cr = None]
  from inst1 pc have skipped:
    "build_images tools_unchanged bp0 ''jupyterhub/k8s-'' [''binderhub''] (Some ''HEAD~1..HEAD'')
        False state0 =
       (Inr (),
        state0\<lparr>trace := trace state0 @
             concat (map (\<lambda>img. [Exec (git_diff_cmd (IMAGE_FILES bp0) ''HEAD~1..HEAD''),
                                  Print (skip_message img ''HEAD~1..HEAD'')]) [''binderhub''])\<rparr>)"
    by blast
  from inst lg have built:
    "take 2 (drop (length (trace state0))
        (trace (snd (build_images tools_unchanged bp0 ''jupyterhub/k8s-'' [''binderhub''] None
                       False state0)))) =
       [Exec (git_log_cmd (IMAGE_FILES bp0)),
        Exec (docker_build_cmd (image_spec ''jupyterhub/k8s-'' ''binderhub'' ''def456'') ''def456''
                (join bp0 [''images'', ''binderhub'']))]"
    by blast
  show ?thesis
    unfolding skipped built setup_paths_bp0
    by (simp add: git_diff_cmd_def git_log_cmd_def skip_message_def
        docker_build_cmd_def image_spec_def state0_def)
qed

section \<open>Image reference and image tag\<close>

text \<open>
  C4. Let \<open>v\<close> be the identifier that the version stamper returns for the image files.
  Whenever the build of a component \<open>img\<close> is not skipped, the commands after the change
  check are the \<^verbatim>\<open>git log\<close> call and \<^verbatim>\<open>docker build\<close> with the tag \<open>prefix @ img @ '':'' @ v\<close>
  and the build argument \<^verbatim>\<open>BINDERHUB_VERSION=\<close>\<open>v\<close>. And \<^verbatim>\<open>build_values\<close>, on a values document
  with an \<^verbatim>\<open>image\<close> mapping, writes the document back with \<^verbatim>\<open>image.name\<close> set to
  \<open>prefix @ ''binderhub''\<close> and \<^verbatim>\<open>image.tag\<close> set to the same \<open>v\<close>.
\<close>

theorem image_reference_and_tag:
  assumes "fst (last_git_modified w (PathList (IMAGE_FILES bp)) s) = Inr v"
  shows "(skip_unchanged w bp img cr s = (Inr False, s1)
            \<longrightarrow> take 2 (drop (length (trace s1))
                          (trace (snd (build_images w bp prefix (img # imgs) cr do_push s)))) =
                  [Exec (git_log_cmd (IMAGE_FILES bp)),
                   Exec \<lparr>argv = [''docker'', ''build'', ''-t'', prefix @ img @ '':'' @ v,
                                 ''--build-arg'', ''BINDERHUB_VERSION='' @ v,
                                 join bp [''images'', img]],
                         cwd = None, git_ssh_command = None\<rparr>])
         \<and> (files s (values_yaml bp) = Some (YMap kvs) \<and> map_of kvs ''image'' = Some (YMap ikvs)
            \<longrightarrow> fst (build_values w bp prefix s) = Inr ()
                \<and> files (snd (build_values w bp prefix s)) (values_yaml bp) =
                    Some (YMap (AList.update ''image''
                            (YMap (AList.update ''tag'' (YStr v)
                                     (AList.update ''name'' (YStr (prefix @ NAME)) ikvs))) kvs))
                \<and> getitem (YMap (AList.update ''tag'' (YStr v)
                                   (AList.update ''name'' (YStr (prefix @ NAME)) ikvs))) ''name'' =
                    Inr (YStr (prefix @ ''binderhub''))
                \<and> getitem (YMap (AList.update ''tag'' (YStr v)
                                   (AList.update ''name'' (YStr (prefix @ NAME)) ikvs))) ''tag'' =
                    Inr (YStr v))"
proof (intro conjI impI)
  from assms have rc: "returncode (w (git_log_cmd (IMAGE_FILES bp))) = 0"
      and out: "decoded (w (git_log_cmd (IMAGE_FILES bp))) = Some v"
    by (simp_all add: last_git_modified_fst_Inr)
  assume "skip_unchanged w bp img cr s = (Inr False, s1)"
  from build_images_starts [OF this rc out, of prefix imgs do_push]
  show "take 2 (drop (length (trace s1))
        (trace (snd (build_images w bp prefix (img # imgs) cr do_push s)))) =
      [Exec (git_log_cmd (IMAGE_FILES bp)),
       Exec \<lparr>argv = [''docker'', ''build'', ''-t'', prefix @ img @ '':'' @ v,
                     ''--build-arg'', ''BINDERHUB_VERSION='' @ v, join bp [''images'', img]],
             cwd = None, git_ssh_command = None\<rparr>]"
    by (simp add: docker_build_cmd_def image_spec_def cmd_def del: join.simps build_images.simps)
next
  assume d: "files s (values_yaml bp) = Some (YMap kvs) \<and> map_of kvs ''image'' = Some (YMap ikvs)"
  from assms have rc: "returncode (w (git_log_cmd (IMAGE_FILES bp))) = 0"
      and out: "decoded (w (git_log_cmd (IMAGE_FILES bp))) = Some v"
    by (simp_all add: last_git_modified_fst_Inr)
  note ok = build_values_ok
    [where w = w and bp = bp and v = v and s = s and kvs = kvs and ikvs = ikvs
       and prefix = prefix, OF rc out]
  from d ok show "fst (build_values w bp prefix s) = Inr ()"
    by simp
  from d ok show "files (snd (build_values w bp prefix s)) (values_yaml bp) =
      Some (YMap (AList.update ''image''
              (YMap (AList.update ''tag'' (YStr v)
                       (AList.update ''name'' (YStr (prefix @ NAME)) ikvs))) kvs))"
    by simp
  show "getitem (YMap (AList.update ''tag'' (YStr v)
                         (AList.update ''name'' (YStr (prefix @ NAME)) ikvs))) ''name'' =
      Inr (YStr (prefix @ ''binderhub''))"
    by (simp add: getitem_def update_conv' NAME_def)
  show "getitem (YMap (AList.update ''tag'' (YStr v)
                         (AList.update ''name'' (YStr (prefix @ NAME)) ikvs))) ''tag'' =
      Inr (YStr v)"
    by (simp add: getitem_def update_conv')
qed

theorem image_reference_and_tag_witness:
  "take 2 (drop (length (trace state_docs0))
      (trace (snd (build_images tools_def456 bp0 ''acme/k8s-'' [''binderhub''] None False
                     state_docs0)))) =
     [Exec (cmd [''git'', ''log'', ''-n'', ''1'', ''--pretty=format:%h'', ''--'',
                 ''/repo/setup.py'', ''/repo/binderhub'', ''/repo/helm-chart/images/binderhub'']),
      Exec (cmd [''docker'', ''build'', ''-t'', ''acme/k8s-binderhub:def456'',
                 ''--build-arg'', ''BINDERHUB_VERSION=def456'',
                 ''/repo/helm-chart/images/binderhub''])]
   \<and> files (snd (build_values tools_def456 bp0 ''acme/k8s-'' state_docs0)) (values_yaml bp0) =
       Some (YMap [(''replicas'', YInt 2),
                   (''image'', YMap [(''name'', YStr ''acme/k8s-binderhub''),
                                     (''tag'', YStr ''def456'')])])"
proof -
  have lg: "fst (last_git_modified tools_def456 (PathList (IMAGE_FILES bp0)) state_docs0) =
      Inr ''def456''"
    by (simp add: last_git_modified_def456)
  have sk: "skip_unchanged tools_def456 bp0 ''binderhub'' None state_docs0 = (Inr False, state_docs0)"
    by (simp add: skip_unchanged_def)
  have docs: "files state_docs0 (values_yaml bp0) = Some (YMap [(''replicas'', YInt 2),
           (''image'', YMap [(''name'', YStr ''jupyterhub/k8s-binderhub''),
                             (''tag'', YStr ''local'')])])
      \<and> map_of [(''replicas'', YInt 2),
           (''image'', YMap [(''name'', YStr ''jupyterhub/k8s-binderhub''),
                             (''tag'', YStr ''local'')])] ''image'' =
          Some (YMap [(''name'', YStr ''jupyterhub/k8s-binderhub''), (''tag'', YStr ''local'')])"
    by (simp add: values_yaml_bp0 state_docs0_def values0_def)
  note inst = image_reference_and_tag
    [where w = tools_def456 and bp = bp0 and v = "''def456''"
       and img = "''binderhub''" and imgs = "[]" and cr = None and s = state_docs0 and ?s1.0 = state_docs0
       and prefix = "''acme/k8s-''" and do_push = False
       and kvs = "[(''replicas'', YInt 2),
           (''image'', YMap [(''name'', YStr ''jupyterhub/k8s-binderhub''),
                             (''tag'', YStr ''local'')])]"
       and ikvs = "[(''name'', YStr ''jupyterhub/k8s-binderhub''), (''tag'', YStr ''local'')]",
     OF lg]
  from inst sk have built:
    "take 2 (drop (length (trace state_docs0))
        (trace (snd (build_images tools_def456 bp0 ''acme/k8s-'' [''binderhub''] None False
                       state_docs0)))) =
       [Exec (git_log_cmd (IMAGE_FILES bp0)),
        Exec \<lparr>argv = [''docker'', ''build'', ''-t'', ''acme/k8s-'' @ ''binderhub'' @ '':'' @ ''def456'',
                      ''--build-arg'', ''BINDERHUB_VERSION='' @ ''def456'',
                      join bp0 [''images'', ''binderhub'']],
              cwd = None, git_ssh_command = None\<rparr>]"
    by blast
  from inst docs have stamped:
    "files (snd (build_values tools_def456 bp0 ''acme/k8s-'' state_docs0)) (values_yaml bp0) =
       Some (YMap (AList.update ''image''
               (YMap (AList.update ''tag'' (YStr ''def456'')
                        (AList.update ''name'' (YStr (''acme/k8s-'' @ NAME))
                           [(''name'', YStr ''jupyterhub/k8s-binderhub''), (''tag'', YStr ''local'')])))
               [(''replicas'', YInt 2),
                (''image'', YMap [(''name'', YStr ''jupyterhub/k8s-binderhub''),
                                  (''tag'', YStr ''local'')])]))"
    by blast
  have names: "join bp0 [''images'', ''binderhub''] = ''/repo/helm-chart/images/binderhub''"
    by (simp add: bp0_def)
  show ?thesis
    unfolding built stamped names
    by (simp add: image_files_bp0 git_log_cmd_def cmd_def NAME_def)
qed

section \<open>Failure of the version stamper\<close>

text \<open>
  C5. \<^verbatim>\<open>last_git_modified\<close> fails whenever the \<^verbatim>\<open>git log\<close> call exits with a status other
  than 0, as git does in a repository without any commit: the failure is the
  \<^verbatim>\<open>CalledProcessError\<close> of that call, and it ends the caller (\<^verbatim>\<open>build_chart\<close>, the image
  build) at once, before any file is written. When the call succeeds and its output
  decodes, the output is returned as it is, also when it is empty.
\<close>

theorem last_git_modified_failure:
  "(returncode (w (git_log_cmd (path_list ps))) \<noteq> 0
      \<longrightarrow> fst (last_git_modified w ps s) =
            Inl (CalledProcessError (argv (git_log_cmd (path_list ps)))
                   (returncode (w (git_log_cmd (path_list ps))))))
   \<and> (returncode (w (git_log_cmd (path_list ps))) = 0
        \<and> decoded (w (git_log_cmd (path_list ps))) = Some t
      \<longrightarrow> fst (last_git_modified w ps s) = Inr t)
   \<and> (last_git_modified w (PathList ([bp] @ IMAGE_FILES bp)) s = (Inl e, s1)
      \<longrightarrow> build_chart w bp s = (Inl e, s1) \<and> files s1 = files s)
   \<and> (last_git_modified w (PathList (IMAGE_FILES bp)) s = (Inl e, s1)
      \<longrightarrow> build_image w bp prefix img do_push s = (Inl e, s1) \<and> files s1 = files s)"
proof (intro conjI impI)
  assume "returncode (w (git_log_cmd (path_list ps))) \<noteq> 0"
  then show "fst (last_git_modified w ps s) =
      Inl (CalledProcessError (argv (git_log_cmd (path_list ps)))
             (returncode (w (git_log_cmd (path_list ps)))))"
    by (simp add: last_git_modified_eq)
next
  assume "returncode (w (git_log_cmd (path_list ps))) = 0
      \<and> decoded (w (git_log_cmd (path_list ps))) = Some t"
  then show "fst (last_git_modified w ps s) = Inr t"
    by (simp add: last_git_modified_eq decode_def)
next
  assume a: "last_git_modified w (PathList ([bp] @ IMAGE_FILES bp)) s = (Inl e, s1)"
  then show "build_chart w bp s = (Inl e, s1)"
    by (simp add: build_chart_def)
  from a show "files s1 = files s"
    by (auto simp: last_git_modified_eq)
next
  assume a: "last_git_modified w (PathList (IMAGE_FILES bp)) s = (Inl e, s1)"
  then show "build_image w bp prefix img do_push s = (Inl e, s1)"
    by (simp add: build_image_def)
  from a show "files s1 = files s"
    by (auto simp: last_git_modified_eq)
qed

theorem last_git_modified_failure_witness:
  "fst (last_git_modified (history_git []) (PathList (IMAGE_FILES bp0)) state0) =
     Inl (CalledProcessError
            [''git'', ''log'', ''-n'', ''1'', ''--pretty=format:%h'', ''--'',
             ''/repo/setup.py'', ''/repo/binderhub'', ''/repo/helm-chart/images/binderhub'']
            128)
   \<and> fst (build_chart (history_git []) bp0 state_chart0) =
       Inl (CalledProcessError
              [''git'', ''log'', ''-n'', ''1'', ''--pretty=format:%h'', ''--'',
               ''/repo/helm-chart'', ''/repo/setup.py'', ''/repo/binderhub'',
               ''/repo/helm-chart/images/binderhub'']
              128)
   \<and> files (snd (build_chart (history_git []) bp0 state_chart0)) = files state_chart0
   \<and> fst (last_git_modified (history_git history0) (PathList [''/repo/setup.py'']) state0) =
       Inr ''aaa1111''"
proof -
  have rc: "returncode (history_git [] (git_log_cmd (path_list (PathList (IMAGE_FILES bp0))))) \<noteq> 0"
    by (simp add: history_git_def git_log_cmd_def cmd_def)
  have ok: "returncode (history_git history0 (git_log_cmd (path_list (PathList [''/repo/setup.py''])))) = 0
      \<and> decoded (history_git history0 (git_log_cmd (path_list (PathList [''/repo/setup.py''])))) =
          Some ''aaa1111''"
    by (simp add: history_git_def git_log_cmd_def cmd_def history0_def newest_touching_def
        touched_by_def touches_def)
  have lg: "last_git_modified (history_git []) (PathList ([bp0] @ IMAGE_FILES bp0)) state_chart0 =
      (Inl (CalledProcessError (argv (git_log_cmd ([bp0] @ IMAGE_FILES bp0))) 128),
       emit (Exec (git_log_cmd ([bp0] @ IMAGE_FILES bp0))) state_chart0)"
    by (simp add: last_git_modified_eq history_git_def git_log_cmd_def cmd_def)
  note fails = last_git_modified_failure
    [where w = "history_git []" and ps = "PathList (IMAGE_FILES bp0)" and s = state0]
  note returns = last_git_modified_failure
    [where w = "history_git history0" and ps = "PathList [''/repo/setup.py'']" and s = state0
       and t = "''aaa1111''"]
  note aborts = last_git_modified_failure
    [where w = "history_git []" and bp = bp0 and s = state_chart0
       and e = "CalledProcessError (argv (git_log_cmd ([bp0] @ IMAGE_FILES bp0))) 128"
       and ?s1.0 = "emit (Exec (git_log_cmd ([bp0] @ IMAGE_FILES bp0))) state_chart0"]
  from fails rc have a: "fst (last_git_modified (history_git []) (PathList (IMAGE_FILES bp0)) state0) =
      Inl (CalledProcessError (argv (git_log_cmd (path_list (PathList (IMAGE_FILES bp0)))))
             (returncode (history_git [] (git_log_cmd (path_list (PathList (IMAGE_FILES bp0)))))))"
    by blast
  from returns ok have b:
    "fst (last_git_modified (history_git history0) (PathList [''/repo/setup.py'']) state0) =
       Inr ''aaa1111''"
    by blast
  from aborts lg have c: "build_chart (history_git []) bp0 state_chart0 =
      (Inl (CalledProcessError (argv (git_log_cmd ([bp0] @ IMAGE_FILES bp0))) 128),
       emit (Exec (git_log_cmd ([bp0] @ IMAGE_FILES bp0))) state_chart0)"
    by blast
  show ?thesis
    unfolding a b c chart_paths_bp0
    by (simp add: image_files_bp0 git_log_cmd_def cmd_def history_git_def)
qed

text \<open>
  A history with commits, none of which touches the queried path: \<^verbatim>\<open>git log\<close> prints
  nothing and succeeds, and \<^verbatim>\<open>last_git_modified\<close> returns the empty string.
\<close>

theorem last_git_modified_untouched_counterexample:
  "history0 =
     [(''bbb2222'', [''/repo/helm-chart/build.py'']),
      (''aaa1111'', [''/repo/helm-chart/binderhub/Chart.yaml'', ''/repo/setup.py''])]
   \<and> \<not> touched_by (''bbb2222'', [''/repo/helm-chart/build.py'']) [''/repo/docs'']
   \<and> \<not> touched_by (''aaa1111'', [''/repo/helm-chart/binderhub/Chart.yaml'', ''/repo/setup.py''])
         [''/repo/docs'']
   \<and> fst (last_git_modified (history_git history0) (PathList [''/repo/docs'']) state0) = Inr []"
  by (simp add: last_git_modified_eq history_git_def git_log_cmd_def cmd_def history0_def
      newest_touching_def touched_by_def touches_def decode_def)

section \<open>The paths behind the chart version\<close>

text \<open>
  C6. The identifier that \<^verbatim>\<open>build_chart\<close> stamps is asked of git for the paths
  \<^verbatim>\<open>[BASEPATH] + IMAGE_FILES\<close>, not for \<^verbatim>\<open>CHART_FILES\<close>. In a history whose newest commit
  changed only the build script, which lies in \<^verbatim>\<open>BASEPATH\<close> and outside \<^verbatim>\<open>CHART_FILES\<close>, the
  version stamper gives \<^verbatim>\<open>aaa1111\<close> for \<^verbatim>\<open>CHART_FILES\<close>, and \<^verbatim>\<open>build_chart\<close> stamps \<^verbatim>\<open>bbb2222\<close>.
\<close>

theorem build_chart_paths_are_not_CHART_FILES:
  "fst (last_git_modified (history_git history0) (PathList (CHART_FILES bp0)) state_chart0) =
     Inr ''aaa1111''
   \<and> fst (last_git_modified (history_git history0) (PathList ([bp0] @ IMAGE_FILES bp0))
            state_chart0) = Inr ''bbb2222''
   \<and> files (snd (build_chart (history_git history0) bp0 state_chart0)) (chart_yaml bp0) =
       Some (YMap [(''name'', YStr ''binderhub''), (''version'', YStr ''1.2.3-bbb2222'')])
   \<and> drop (length (trace state_chart0))
        (trace (snd (build_chart (history_git history0) bp0 state_chart0))) =
       [Exec (cmd [''git'', ''log'', ''-n'', ''1'', ''--pretty=format:%h'', ''--'',
                   ''/repo/helm-chart'', ''/repo/setup.py'', ''/repo/binderhub'',
                   ''/repo/helm-chart/images/binderhub''])]
   \<and> CHART_FILES bp0 =
       [''/repo/setup.py'', ''/repo/binderhub'', ''/repo/helm-chart/images/binderhub'',
        ''/repo/helm-chart/binderhub'']"
proof -
  have cf: "CHART_FILES bp0 =
      [''/repo/setup.py'', ''/repo/binderhub'', ''/repo/helm-chart/images/binderhub'',
       ''/repo/helm-chart/binderhub'']"
    by (simp add: CHART_FILES_def image_files_bp0 CHARTPATH_def) (simp add: bp0_def)
  have a: "last_git_modified (history_git history0) (PathList (CHART_FILES bp0)) state_chart0 =
      (Inr ''aaa1111'', emit (Exec (git_log_cmd (CHART_FILES bp0))) state_chart0)"
    unfolding cf
    by (simp add: last_git_modified_eq history_git_def git_log_cmd_def cmd_def history0_def
        newest_touching_def touched_by_def touches_def decode_def)
  have b: "last_git_modified (history_git history0) (PathList ([bp0] @ IMAGE_FILES bp0))
        state_chart0 =
      (Inr ''bbb2222'', emit (Exec (git_log_cmd ([bp0] @ IMAGE_FILES bp0))) state_chart0)"
    unfolding chart_paths_bp0
    by (simp add: last_git_modified_eq history_git_def git_log_cmd_def cmd_def history0_def
        newest_touching_def touched_by_def touches_def decode_def)
  have c: "build_chart (history_git history0) bp0 state_chart0 =
      (Inr (YStr ''1.2.3-abc123''),
       dump (chart_yaml bp0)
         (YMap (AList.update ''version''
                  (YStr (before_first_hyphen ''1.2.3-abc123'' @ ''-'' @ ''bbb2222''))
                  [(''name'', YStr ''binderhub''), (''version'', YStr ''1.2.3-abc123'')]))
         (emit (Exec (git_log_cmd ([bp0] @ IMAGE_FILES bp0))) state_chart0))"
    by (rule build_chart_ok [OF b]) (simp_all add: chart_yaml_bp0 state_chart0_def chart0_def)
  show ?thesis
    unfolding a b c
    by (simp add: cf chart_paths_bp0_cons git_log_cmd_def before_first_hyphen_def)
qed

section \<open>A build without push\<close>

lemma verb_simps [simp]:
  "verb (git_log_cmd ps) = [''git'', ''log'']"
  "verb (git_diff_cmd ps r) = [''git'', ''diff'']"
  "verb (docker_build_cmd spec tag path) = [''docker'', ''build'']"
  "verb (docker_push_cmd spec) = [''docker'', ''push'']"
  by (simp_all add: verb_def git_log_cmd_def git_diff_cmd_def docker_build_cmd_def
      docker_push_cmd_def cmd_def)

lemma build_event_simps:
  "is_build_event bp (Print m)"
  "is_build_event bp (Exec (git_log_cmd (IMAGE_FILES bp)))"
  "is_build_event bp (Exec (git_log_cmd ([bp] @ IMAGE_FILES bp)))"
  "is_build_event bp (Exec (git_log_cmd (bp # IMAGE_FILES bp)))"
  "is_build_event bp (Exec (git_diff_cmd ps r))"
  "is_build_event bp (Exec (docker_build_cmd spec tag path))"
  by (simp_all add: is_build_event_def)

lemma git_log_cmd_inject [simp]: "git_log_cmd ps = git_log_cmd qs \<longleftrightarrow> ps = qs"
  by (simp add: git_log_cmd_def cmd_def)

lemma build_event_not_push: "is_build_event bp ev \<Longrightarrow> \<not> is_docker_push ev"
  by (auto simp: is_build_event_def is_docker_push_def split: event.splits)

lemma build_event_not_publish: "is_build_event bp ev \<Longrightarrow> \<not> is_publish ev"
  by (auto simp: is_build_event_def is_publish_def IMAGE_FILES_def split: event.splits)

lemma skip_unchanged_build_events:
  "only_events (is_build_event bp) s (snd (skip_unchanged w bp img cr s))"
  by (auto simp: skip_unchanged_def path_changed_eq build_event_simps
      intro!: only_events_emit only_events_refl split: option.splits)

lemma build_image_build_events:
  "only_events (is_build_event bp) s (snd (build_image w bp prefix img False s))"
  by (auto simp: build_image_def last_git_modified_eq check_call_eq Let_def build_event_simps
      intro!: only_events_emit only_events_refl split: sum.splits simp del: join.simps)

lemma build_images_build_events:
  "only_events (is_build_event bp) s (snd (build_images w bp prefix imgs cr False s))"
  by (rule build_images_only_events
      [OF skip_unchanged_build_events build_image_build_events])

lemma build_values_build_events:
  "only_events (is_build_event bp) s (snd (build_values w bp prefix s))"
  by (auto simp: build_values_def last_git_modified_eq build_event_simps
      intro!: only_events_emit only_events_dump only_events_refl split: sum.splits)

lemma build_chart_build_events:
  "only_events (is_build_event bp) s (snd (build_chart w bp s))"
  by (auto simp: build_chart_def last_git_modified_eq build_event_simps
      intro!: only_events_emit only_events_dump only_events_refl split: sum.splits)

text \<open>
  Every command of \<^verbatim>\<open>publish_pages\<close> is a publish event, and the first one is always run;
  \<^verbatim>\<open>docker push\<close> is a registry push.
\<close>

lemma check_calls_events:
  "list_all (\<lambda>c. P (Exec c)) cs \<Longrightarrow> only_events P s (snd (check_calls w cs s))"
proof (induction cs arbitrary: s)
  case Nil
  show ?case by (simp add: only_events_refl)
next
  case (Cons c cs)
  then have c: "only_events P s (emit (Exec c) s)" and cs: "list_all (\<lambda>c. P (Exec c)) cs"
    by (simp_all add: only_events_emit only_events_refl)
  from only_events_trans [OF c Cons.IH [OF cs, of "emit (Exec c) s"]] c
  show ?case
    by (simp add: check_call_eq)
qed

lemma publish_pages_events:
  "only_events is_publish s (snd (publish_pages w bp s))"
  "take 1 (drop (length (trace s)) (trace (snd (publish_pages w bp s)))) =
     [Exec (git_log_cmd [''.''])]"
proof -
  have cmds: "list_all (\<lambda>c. is_publish (Exec c)) (publish_cmds bp v)" for v
    by (simp add: publish_cmds_def is_publish_def verb_def cmd_def)
  have first: "only_events is_publish s (emit (Exec (git_log_cmd [''.''])) s)"
    by (simp add: only_events_emit only_events_refl is_publish_def)
  show "only_events is_publish s (snd (publish_pages w bp s))"
    using first only_events_trans [OF first check_calls_events [OF cmds]]
    by (auto simp: publish_pages_def last_git_modified_eq split: sum.splits)
  have "only_events is_publish (emit (Exec (git_log_cmd [''.''])) s)
      (snd (check_calls w (publish_cmds bp v) (emit (Exec (git_log_cmd [''.''])) s)))" for v
    by (rule check_calls_events [OF cmds])
  then have "\<exists>evs. trace (snd (check_calls w (publish_cmds bp v)
        (emit (Exec (git_log_cmd [''.''])) s))) = trace s @ Exec (git_log_cmd [''.'']) # evs" for v
    by (auto simp: only_events_iff)
  then have "take 1 (drop (length (trace s)) (trace (snd (check_calls w (publish_cmds bp v)
        (emit (Exec (git_log_cmd [''.''])) s))))) = [Exec (git_log_cmd [''.''])]" for v
    by (metis append_eq_conv_conj take0 take_Suc_Cons One_nat_def)
  then show "take 1 (drop (length (trace s)) (trace (snd (publish_pages w bp s)))) =
      [Exec (git_log_cmd [''.''])]"
    by (auto simp: publish_pages_def last_git_modified_eq split: sum.splits)
qed

lemma docker_push_is_push: "is_docker_push (Exec (docker_push_cmd spec))"
  by (simp add: is_docker_push_def)

text \<open>
  C8. For every run of the \<^verbatim>\<open>build\<close> subcommand without \<^verbatim>\<open>--push\<close>, whatever the tools answer:
  the trace is only extended, every event added is a build event (a printed line,
  \<^verbatim>\<open>git diff\<close>, \<^verbatim>\<open>git log\<close> for the image files or the chart version, \<^verbatim>\<open>docker build\<close>), none is
  a \<^verbatim>\<open>docker push\<close> and none is a command of \<^verbatim>\<open>publish_pages\<close>; and no file other than the
  values document and the chart document changes.
\<close>

theorem build_without_push:
  assumes "action a = Some ''build''"
      and "\<not> push a"
  shows "only_events (\<lambda>ev. is_build_event bp ev \<and> \<not> is_docker_push ev \<and> \<not> is_publish ev)
           s (snd (main w bp a s))
         \<and> (\<forall>p. p \<noteq> values_yaml bp \<and> p \<noteq> chart_yaml bp
                \<longrightarrow> files (snd (main w bp a s)) p = files s p)"
proof -
  define s1 where "s1 = snd (build_images w bp (image_prefix a) images (commit_range a) False s)"
  define s2 where "s2 = snd (build_values w bp (image_prefix a) s1)"
  define s3 where "s3 = snd (build_chart w bp s2)"
  have e1: "only_events (is_build_event bp) s s1"
    unfolding s1_def by (rule build_images_build_events)
  have e2: "only_events (is_build_event bp) s1 s2"
    unfolding s2_def by (rule build_values_build_events)
  have e3: "only_events (is_build_event bp) s2 s3"
    unfolding s3_def by (rule build_chart_build_events)
  note e12 = only_events_trans [OF e1 e2]
  note e123 = only_events_trans [OF e12 e3]
  have final: "snd (main w bp a s) = s1 \<or> snd (main w bp a s) = s2 \<or> snd (main w bp a s) = s3"
    using assms
    by (auto simp: main_def s1_def s2_def s3_def split: prod.splits sum.splits)
  with e1 e12 e123 have "only_events (is_build_event bp) s (snd (main w bp a s))"
    by auto
  then have events: "only_events
      (\<lambda>ev. is_build_event bp ev \<and> \<not> is_docker_push ev \<and> \<not> is_publish ev)
      s (snd (main w bp a s))"
    by (rule only_events_mono) (simp add: build_event_not_push build_event_not_publish)
  have f1: "files s1 = files s"
    unfolding s1_def by (rule files_build_images)
  have frame: "files (snd (main w bp a s)) p = files s p"
    if "p \<noteq> values_yaml bp \<and> p \<noteq> chart_yaml bp" for p
  proof -
    from that have f2: "files s2 p = files s1 p" and f3: "files s3 p = files s2 p"
      unfolding s2_def s3_def by (simp_all add: files_build_values files_build_chart)
    from final f1 f2 f3 show ?thesis
      by auto
  qed
  from events frame show ?thesis
    by blast
qed

lemma main_build_example:
  "trace (snd (main tools_def456 bp0 args_build state_docs0)) =
     [Exec (cmd [''git'', ''log'', ''-n'', ''1'', ''--pretty=format:%h'', ''--'',
                 ''/repo/setup.py'', ''/repo/binderhub'', ''/repo/helm-chart/images/binderhub'']),
      Exec (cmd [''docker'', ''build'', ''-t'', ''acme/k8s-binderhub:def456'',
                 ''--build-arg'', ''BINDERHUB_VERSION=def456'',
                 ''/repo/helm-chart/images/binderhub'']),
      Exec (cmd [''git'', ''log'', ''-n'', ''1'', ''--pretty=format:%h'', ''--'',
                 ''/repo/setup.py'', ''/repo/binderhub'', ''/repo/helm-chart/images/binderhub'']),
      Exec (cmd [''git'', ''log'', ''-n'', ''1'', ''--pretty=format:%h'', ''--'',
                 ''/repo/helm-chart'', ''/repo/setup.py'', ''/repo/binderhub'',
                 ''/repo/helm-chart/images/binderhub''])]"
proof -
  have lg: "returncode (tools_def456 (git_log_cmd (IMAGE_FILES bp0))) = 0"
      "decoded (tools_def456 (git_log_cmd (IMAGE_FILES bp0))) = Some ''def456''"
    by (simp_all add: tools_def456_def)
  have bi: "build_images tools_def456 bp0 ''acme/k8s-'' [''binderhub''] None False state_docs0 =
      (Inr (),
       emit (Exec (docker_build_cmd ''acme/k8s-binderhub:def456'' ''def456''
                     ''/repo/helm-chart/images/binderhub''))
         (emit (Exec (git_log_cmd (IMAGE_FILES bp0))) state_docs0))"
    using build_image_eq
      [where w = tools_def456 and bp = bp0 and tag = "''def456''" and prefix = "''acme/k8s-''"
         and img = "''binderhub''" and do_push = False and s = state_docs0, OF lg]
    by (simp add: skip_unchanged_def check_call_eq image_spec_def setup_paths_bp0(4)
        del: join.simps) (simp add: tools_def456_def)
  define s1 where "s1 = emit (Exec (docker_build_cmd ''acme/k8s-binderhub:def456'' ''def456''
                     ''/repo/helm-chart/images/binderhub''))
         (emit (Exec (git_log_cmd (IMAGE_FILES bp0))) state_docs0)"
  have bv: "build_values tools_def456 bp0 ''acme/k8s-'' s1 =
      (Inr (),
       dump (values_yaml bp0)
         (YMap [(''replicas'', YInt 2),
                (''image'', YMap [(''name'', YStr ''acme/k8s-binderhub''),
                                  (''tag'', YStr ''def456'')])])
         (emit (Exec (git_log_cmd (IMAGE_FILES bp0))) s1))"
    using build_values_ok
      [where w = tools_def456 and bp = bp0 and v = "''def456''" and s = s1
         and kvs = "[(''replicas'', YInt 2),
                     (''image'', YMap [(''name'', YStr ''jupyterhub/k8s-binderhub''),
                                       (''tag'', YStr ''local'')])]"
         and ikvs = "[(''name'', YStr ''jupyterhub/k8s-binderhub''), (''tag'', YStr ''local'')]"
         and prefix = "''acme/k8s-''", OF lg]
    by (simp add: s1_def values_yaml_bp0 state_docs0_def values0_def NAME_def)
  define s2 where "s2 = dump (values_yaml bp0)
         (YMap [(''replicas'', YInt 2),
                (''image'', YMap [(''name'', YStr ''acme/k8s-binderhub''),
                                  (''tag'', YStr ''def456'')])])
         (emit (Exec (git_log_cmd (IMAGE_FILES bp0))) s1)"
  have chart: "files s2 (chart_yaml bp0) =
      Some (YMap [(''name'', YStr ''binderhub''), (''version'', YStr ''1.2.3-abc123'')])"
    by (simp add: s2_def s1_def chart_yaml_bp0 values_yaml_bp0 state_docs0_def chart0_def)
  have bc: "build_chart tools_def456 bp0 s2 =
      (Inr (YStr ''1.2.3-abc123''),
       dump (chart_yaml bp0)
         (YMap [(''name'', YStr ''binderhub''), (''version'', YStr ''1.2.3-def456'')])
         (emit (Exec (git_log_cmd ([bp0] @ IMAGE_FILES bp0))) s2))"
    using build_chart_ok [OF last_git_modified_def456 chart, where old = "''1.2.3-abc123''"]
    by (simp add: before_first_hyphen_def)
  have "main tools_def456 bp0 args_build state_docs0 =
      (Inr (), dump (chart_yaml bp0)
         (YMap [(''name'', YStr ''binderhub''), (''version'', YStr ''1.2.3-def456'')])
         (emit (Exec (git_log_cmd ([bp0] @ IMAGE_FILES bp0))) s2))"
    unfolding main_def args_build_def images_def
    by (simp add: bi s1_def [symmetric] bv s2_def [symmetric] bc del: build_images.simps)
  then show ?thesis
    by (simp add: s2_def s1_def state_docs0_def git_log_cmd_def docker_build_cmd_def
        image_files_bp0) (simp add: bp0_def)
qed

theorem build_without_push_witness:
  "only_events (\<lambda>ev. is_build_event bp0 ev \<and> \<not> is_docker_push ev \<and> \<not> is_publish ev)
     state_docs0 (snd (main tools_def456 bp0 args_build state_docs0))
   \<and> files (snd (main tools_def456 bp0 args_build state_docs0)) ''/repo/setup.py'' =
       files state_docs0 ''/repo/setup.py''
   \<and> trace (snd (main tools_def456 bp0 args_build state_docs0)) =
       [Exec (cmd [''git'', ''log'', ''-n'', ''1'', ''--pretty=format:%h'', ''--'',
                   ''/repo/setup.py'', ''/repo/binderhub'', ''/repo/helm-chart/images/binderhub'']),
        Exec (cmd [''docker'', ''build'', ''-t'', ''acme/k8s-binderhub:def456'',
                   ''--build-arg'', ''BINDERHUB_VERSION=def456'',
                   ''/repo/helm-chart/images/binderhub'']),
        Exec (cmd [''git'', ''log'', ''-n'', ''1'', ''--pretty=format:%h'', ''--'',
                   ''/repo/setup.py'', ''/repo/binderhub'', ''/repo/helm-chart/images/binderhub'']),
        Exec (cmd [''git'', ''log'', ''-n'', ''1'', ''--pretty=format:%h'', ''--'',
                   ''/repo/helm-chart'', ''/repo/setup.py'', ''/repo/binderhub'',
                   ''/repo/helm-chart/images/binderhub''])]"
proof -
  have a: "action args_build = Some ''build''" and p: "\<not> push args_build"
    by (simp_all add: args_build_def)
  have other: "''/repo/setup.py'' \<noteq> values_yaml bp0 \<and> ''/repo/setup.py'' \<noteq> chart_yaml bp0"
    by (simp add: values_yaml_bp0 chart_yaml_bp0)
  note inst = build_without_push [OF a p, where bp = bp0 and s = state_docs0 and w = tools_def456]
  from inst other main_build_example show ?thesis
    by blast
qed

section \<open>The change detector\<close>




section \<open>Stamping after a skipped build\<close>

lemma main_after_build_images:
  assumes "action a = Some ''build''"
      and "build_images w bp (image_prefix a) images (commit_range a) (push a) s = (Inr (), s1)"
      and "fst (last_git_modified w (PathList (IMAGE_FILES bp)) s) = Inr v"
      and "fst (last_git_modified w (PathList ([bp] @ IMAGE_FILES bp)) s) = Inr cv"
      and "files s (values_yaml bp) = Some (YMap kvs)"
      and "map_of kvs ''image'' = Some (YMap ikvs)"
      and "files s (chart_yaml bp) = Some (YMap ckvs)"
      and "map_of ckvs ''version'' = Some (YStr old)"
  shows "main w bp a s =
           (if push a
            then publish_pages w bp
              (dump (chart_yaml bp)
                 (YMap (AList.update ''version''
                          (YStr (before_first_hyphen old @ ''-'' @ cv)) ckvs))
                 (emit (Exec (git_log_cmd ([bp] @ IMAGE_FILES bp)))
                    (dump (values_yaml bp)
                       (YMap (AList.update ''image''
                          (YMap (AList.update ''tag'' (YStr v)
                                   (AList.update ''name'' (YStr (image_prefix a @ NAME)) ikvs)))
                          kvs))
                       (emit (Exec (git_log_cmd (IMAGE_FILES bp))) s1))))
            else (Inr (),
              dump (chart_yaml bp)
                 (YMap (AList.update ''version''
                          (YStr (before_first_hyphen old @ ''-'' @ cv)) ckvs))
                 (emit (Exec (git_log_cmd ([bp] @ IMAGE_FILES bp)))
                    (dump (values_yaml bp)
                       (YMap (AList.update ''image''
                          (YMap (AList.update ''tag'' (YStr v)
                                   (AList.update ''name'' (YStr (image_prefix a @ NAME)) ikvs)))
                          kvs))
                       (emit (Exec (git_log_cmd (IMAGE_FILES bp))) s1)))))"
proof -
  from assms(3) have rc: "returncode (w (git_log_cmd (IMAGE_FILES bp))) = 0"
      and out: "decoded (w (git_log_cmd (IMAGE_FILES bp))) = Some v"
    by (simp_all add: last_git_modified_fst_Inr)
  have f1: "files s1 = files s"
    using files_build_images [of w bp "image_prefix a" images "commit_range a" "push a" s] assms(2)
    by simp
  define s2 where "s2 = dump (values_yaml bp)
      (YMap (AList.update ''image''
         (YMap (AList.update ''tag'' (YStr v)
                  (AList.update ''name'' (YStr (image_prefix a @ NAME)) ikvs))) kvs))
      (emit (Exec (git_log_cmd (IMAGE_FILES bp))) s1)"
  have bv: "build_values w bp (image_prefix a) s1 = (Inr (), s2)"
    unfolding s2_def
    using build_values_ok
      [where w = w and bp = bp and v = v and s = s1 and kvs = kvs and ikvs = ikvs
         and prefix = "image_prefix a", OF rc out] assms(5,6) f1
    by simp
  have chart: "files s2 (chart_yaml bp) = Some (YMap ckvs)"
    using assms(7) f1 values_chart_distinct [of bp] by (simp add: s2_def)
  from assms(4) have lg: "last_git_modified w (PathList ([bp] @ IMAGE_FILES bp)) s2 =
      (Inr cv, emit (Exec (git_log_cmd ([bp] @ IMAGE_FILES bp))) s2)"
    by (simp add: last_git_modified_eq decode_def split: if_splits option.splits)
  note bc = build_chart_ok [OF lg chart assms(8)]
  show ?thesis
    unfolding main_def
    by (simp add: assms(1,2) bv bc del: build_images.simps) (simp add: s2_def)
qed

text \<open>
  C10. In the \<^verbatim>\<open>build\<close> subcommand, with both documents well formed and both \<^verbatim>\<open>git log\<close> calls
  answering: whenever the image-build stage returns, whether it built or skipped, the
  values document is written back with \<^verbatim>\<open>image.name\<close> and \<^verbatim>\<open>image.tag\<close> set and the chart
  document with the new version. In particular, when a commit range is supplied and the
  change detector reports the image files unchanged, the run starts with \<^verbatim>\<open>git diff\<close>, the
  skip message and the two \<^verbatim>\<open>git log\<close> calls of the stamping, with no \<^verbatim>\<open>docker\<close> command
  between them, and both documents are rewritten all the same.
\<close>

theorem stamping_is_unconditional:
  assumes "action a = Some ''build''"
      and "fst (last_git_modified w (PathList (IMAGE_FILES bp)) s) = Inr v"
      and "fst (last_git_modified w (PathList ([bp] @ IMAGE_FILES bp)) s) = Inr cv"
      and "files s (values_yaml bp) = Some (YMap kvs)"
      and "map_of kvs ''image'' = Some (YMap ikvs)"
      and "files s (chart_yaml bp) = Some (YMap ckvs)"
      and "map_of ckvs ''version'' = Some (YStr old)"
  shows "(fst (build_images w bp (image_prefix a) images (commit_range a) (push a) s) = Inr ()
          \<longrightarrow> files (snd (main w bp a s)) (values_yaml bp) =
                Some (YMap (AList.update ''image''
                        (YMap (AList.update ''tag'' (YStr v)
                                 (AList.update ''name'' (YStr (image_prefix a @ ''binderhub''))
                                    ikvs))) kvs))
              \<and> files (snd (main w bp a s)) (chart_yaml bp) =
                  Some (YMap (AList.update ''version''
                          (YStr (before_first_hyphen old @ ''-'' @ cv)) ckvs)))
         \<and> (commit_range a = Some r \<and> r \<noteq> []
              \<and> fst (path_changed w (PathList (IMAGE_FILES bp)) r s) = Inr False
          \<longrightarrow> take 4 (drop (length (trace s)) (trace (snd (main w bp a s)))) =
                [Exec (git_diff_cmd (IMAGE_FILES bp) r),
                 Print (skip_message ''binderhub'' r),
                 Exec (git_log_cmd (IMAGE_FILES bp)),
                 Exec (git_log_cmd ([bp] @ IMAGE_FILES bp))]
              \<and> files (snd (main w bp a s)) (values_yaml bp) =
                  Some (YMap (AList.update ''image''
                          (YMap (AList.update ''tag'' (YStr v)
                                   (AList.update ''name'' (YStr (image_prefix a @ ''binderhub''))
                                      ikvs))) kvs))
              \<and> files (snd (main w bp a s)) (chart_yaml bp) =
                  Some (YMap (AList.update ''version''
                          (YStr (before_first_hyphen old @ ''-'' @ cv)) ckvs)))"
proof -
  define vals where "vals = YMap (AList.update ''image''
      (YMap (AList.update ''tag'' (YStr v)
               (AList.update ''name'' (YStr (image_prefix a @ NAME)) ikvs))) kvs)"
  define chart where "chart = YMap (AList.update ''version''
      (YStr (before_first_hyphen old @ ''-'' @ cv)) ckvs)"
  define stamped where "stamped = (\<lambda>s1. dump (chart_yaml bp) chart
      (emit (Exec (git_log_cmd ([bp] @ IMAGE_FILES bp)))
         (dump (values_yaml bp) vals (emit (Exec (git_log_cmd (IMAGE_FILES bp))) s1))))"
  have run: "main w bp a s =
      (if push a then publish_pages w bp (stamped s1) else (Inr (), stamped s1))"
    if "build_images w bp (image_prefix a) images (commit_range a) (push a) s = (Inr (), s1)"
    for s1
    using main_after_build_images [OF assms(1) that assms(2-7)]
    by (simp add: stamped_def vals_def chart_def)
  have files_stamped: "files (stamped s1) (values_yaml bp) = Some vals
      \<and> files (stamped s1) (chart_yaml bp) = Some chart" for s1
    using values_chart_distinct [of bp] by (simp add: stamped_def)
  have docs: "files (snd (main w bp a s)) (values_yaml bp) = Some vals
      \<and> files (snd (main w bp a s)) (chart_yaml bp) = Some chart"
    if "build_images w bp (image_prefix a) images (commit_range a) (push a) s = (Inr (), s1)"
    for s1
    using run [OF that] files_stamped [of s1] by (simp add: files_publish_pages)
  have general: "files (snd (main w bp a s)) (values_yaml bp) = Some vals
      \<and> files (snd (main w bp a s)) (chart_yaml bp) = Some chart"
    if "fst (build_images w bp (image_prefix a) images (commit_range a) (push a) s) = Inr ()"
  proof -
    from that have "build_images w bp (image_prefix a) images (commit_range a) (push a) s =
        (Inr (), snd (build_images w bp (image_prefix a) images (commit_range a) (push a) s))"
      by (metis prod.collapse)
    then show ?thesis
      by (rule docs)
  qed
  have skipped: "take 4 (drop (length (trace s)) (trace (snd (main w bp a s)))) =
        [Exec (git_diff_cmd (IMAGE_FILES bp) r), Print (skip_message ''binderhub'' r),
         Exec (git_log_cmd (IMAGE_FILES bp)), Exec (git_log_cmd ([bp] @ IMAGE_FILES bp))]
      \<and> files (snd (main w bp a s)) (values_yaml bp) = Some vals
      \<and> files (snd (main w bp a s)) (chart_yaml bp) = Some chart"
    if h: "commit_range a = Some r \<and> r \<noteq> []
      \<and> fst (path_changed w (PathList (IMAGE_FILES bp)) r s) = Inr False"
  proof -
    define s1 where "s1 = emit (Print (skip_message ''binderhub'' r))
        (emit (Exec (git_diff_cmd (IMAGE_FILES bp) r)) s)"
    from h have pc: "path_changed w (PathList (IMAGE_FILES bp)) r s =
        (Inr False, emit (Exec (git_diff_cmd (IMAGE_FILES bp) r)) s)"
      by (simp add: path_changed_eq split: if_splits)
    with h have bi: "build_images w bp (image_prefix a) images (commit_range a) (push a) s =
        (Inr (), s1)"
      by (simp add: images_def skip_unchanged_def s1_def)
    note m = run [OF bi]
    have tr: "trace (stamped s1) = trace s @
        [Exec (git_diff_cmd (IMAGE_FILES bp) r), Print (skip_message ''binderhub'' r),
         Exec (git_log_cmd (IMAGE_FILES bp)), Exec (git_log_cmd ([bp] @ IMAGE_FILES bp))]"
      by (simp add: stamped_def s1_def)
    have "\<exists>evs. trace (snd (main w bp a s)) = trace (stamped s1) @ evs"
    proof (cases "push a")
      case True
      with m publish_pages_events(1) [of "stamped s1" w bp] show ?thesis
        by (auto simp: only_events_iff)
    next
      case False
      with m show ?thesis by simp
    qed
    then obtain evs where "trace (snd (main w bp a s)) = trace s @
        [Exec (git_diff_cmd (IMAGE_FILES bp) r), Print (skip_message ''binderhub'' r),
         Exec (git_log_cmd (IMAGE_FILES bp)), Exec (git_log_cmd ([bp] @ IMAGE_FILES bp))] @ evs"
      using tr by auto
    then have "take 4 (drop (length (trace s)) (trace (snd (main w bp a s)))) =
        [Exec (git_diff_cmd (IMAGE_FILES bp) r), Print (skip_message ''binderhub'' r),
         Exec (git_log_cmd (IMAGE_FILES bp)), Exec (git_log_cmd ([bp] @ IMAGE_FILES bp))]"
      by simp
    with docs [OF bi] show ?thesis
      by simp
  qed
  from general skipped show ?thesis
    unfolding vals_def chart_def by (simp add: NAME_def)
qed

theorem stamping_is_unconditional_witness:
  "take 4 (drop (length (trace state_docs0))
      (trace (snd (main tools_unchanged bp0 args_range state_docs0)))) =
     [Exec (cmd [''git'', ''diff'', ''--name-only'', ''HEAD~1..HEAD'', ''--'',
                 ''/repo/setup.py'', ''/repo/binderhub'', ''/repo/helm-chart/images/binderhub'']),
      Print ''Skipping binderhub, not touched in HEAD~1..HEAD'',
      Exec (cmd [''git'', ''log'', ''-n'', ''1'', ''--pretty=format:%h'', ''--'',
                 ''/repo/setup.py'', ''/repo/binderhub'', ''/repo/helm-chart/images/binderhub'']),
      Exec (cmd [''git'', ''log'', ''-n'', ''1'', ''--pretty=format:%h'', ''--'',
                 ''/repo/helm-chart'', ''/repo/setup.py'', ''/repo/binderhub'',
                 ''/repo/helm-chart/images/binderhub''])]
   \<and> files (snd (main tools_unchanged bp0 args_range state_docs0)) (values_yaml bp0) =
       Some (YMap [(''replicas'', YInt 2),
                   (''image'', YMap [(''name'', YStr ''acme/k8s-binderhub''),
                                     (''tag'', YStr ''def456'')])])
   \<and> files (snd (main tools_unchanged bp0 args_range state_docs0)) (chart_yaml bp0) =
       Some (YMap [(''name'', YStr ''binderhub''), (''version'', YStr ''1.2.3-def456'')])"
proof -
  have a: "action args_range = Some ''build''"
    by (simp add: args_range_def)
  have lg: "fst (last_git_modified tools_unchanged (PathList (IMAGE_FILES bp0)) state_docs0) =
      Inr ''def456''"
    by (simp add: last_git_modified_eq tools_unchanged_def decode_def verb_simps [unfolded verb_def])
  have clg: "fst (last_git_modified tools_unchanged (PathList ([bp0] @ IMAGE_FILES bp0))
      state_docs0) = Inr ''def456''"
    by (simp add: last_git_modified_eq tools_unchanged_def decode_def verb_simps [unfolded verb_def])
  have vals: "files state_docs0 (values_yaml bp0) =
      Some (YMap [(''replicas'', YInt 2),
                  (''image'', YMap [(''name'', YStr ''jupyterhub/k8s-binderhub''),
                                    (''tag'', YStr ''local'')])])"
    by (simp add: values_yaml_bp0 state_docs0_def values0_def)
  have img: "map_of [(''replicas'', YInt 2),
                     (''image'', YMap [(''name'', YStr ''jupyterhub/k8s-binderhub''),
                                       (''tag'', YStr ''local'')])] ''image'' =
      Some (YMap [(''name'', YStr ''jupyterhub/k8s-binderhub''), (''tag'', YStr ''local'')])"
    by simp
  have chart: "files state_docs0 (chart_yaml bp0) =
      Some (YMap [(''name'', YStr ''binderhub''), (''version'', YStr ''1.2.3-abc123'')])"
    by (simp add: chart_yaml_bp0 state_docs0_def chart0_def)
  have ver: "map_of [(''name'', YStr ''binderhub''), (''version'', YStr ''1.2.3-abc123'')]
      ''version'' = Some (YStr ''1.2.3-abc123'')"
    by simp
  have skip: "commit_range args_range = Some ''HEAD~1..HEAD'' \<and> ''HEAD~1..HEAD'' \<noteq> []
      \<and> fst (path_changed tools_unchanged (PathList (IMAGE_FILES bp0)) ''HEAD~1..HEAD''
              state_docs0) = Inr False"
    by (simp add: args_range_def path_changed_eq tools_unchanged_def strip_def
        verb_simps [unfolded verb_def])
  note inst = stamping_is_unconditional
    [OF a lg clg vals img chart ver, where r = "''HEAD~1..HEAD''"]
  from inst skip have
    "take 4 (drop (length (trace state_docs0))
        (trace (snd (main tools_unchanged bp0 args_range state_docs0)))) =
       [Exec (git_diff_cmd (IMAGE_FILES bp0) ''HEAD~1..HEAD''),
        Print (skip_message ''binderhub'' ''HEAD~1..HEAD''),
        Exec (git_log_cmd (IMAGE_FILES bp0)),
        Exec (git_log_cmd ([bp0] @ IMAGE_FILES bp0))]
     \<and> files (snd (main tools_unchanged bp0 args_range state_docs0)) (values_yaml bp0) =
         Some (YMap (AList.update ''image''
                 (YMap (AList.update ''tag'' (YStr ''def456'')
                          (AList.update ''name'' (YStr (image_prefix args_range @ ''binderhub''))
                             [(''name'', YStr ''jupyterhub/k8s-binderhub''),
                              (''tag'', YStr ''local'')])))
                 [(''replicas'', YInt 2),
                  (''image'', YMap [(''name'', YStr ''jupyterhub/k8s-binderhub''),
                                    (''tag'', YStr ''local'')])]))
     \<and> files (snd (main tools_unchanged bp0 args_range state_docs0)) (chart_yaml bp0) =
         Some (YMap (AList.update ''version''
                 (YStr (before_first_hyphen ''1.2.3-abc123'' @ ''-'' @ ''def456''))
                 [(''name'', YStr ''binderhub''), (''version'', YStr ''1.2.3-abc123'')]))"
    by blast
  then show ?thesis
    unfolding chart_paths_bp0
    by (simp add: image_files_bp0 git_diff_cmd_def git_log_cmd_def skip_message_def
        args_range_def before_first_hyphen_def)
qed

end
